theory Spec2Isabelle
  imports Main "HOL-Library.Word"
begin

unbundle bit_operations_syntax

section \<open>JavaScript numbers and operators used by the codec\<close>

text \<open>
  The codec works on JavaScript numbers that hold integers. They are modelled as \<open>int\<close>.
  The bitwise operators of JavaScript first convert each operand to a signed 32-bit
  integer (ToInt32), and the shift operators use the low five bits of the shift count.
\<close>

definition toInt32 :: "int \<Rightarrow> int" where
  "toInt32 x = signed_take_bit 31 x"

definition js_and :: "int \<Rightarrow> int \<Rightarrow> int" where
  "js_and a b = toInt32 a AND toInt32 b"

definition js_or :: "int \<Rightarrow> int \<Rightarrow> int" where
  "js_or a b = toInt32 a OR toInt32 b"

definition js_xor :: "int \<Rightarrow> int \<Rightarrow> int" where
  "js_xor a b = toInt32 a XOR toInt32 b"

definition js_shl :: "int \<Rightarrow> int \<Rightarrow> int" where
  "js_shl a n = toInt32 (push_bit (nat (n mod 32)) (toInt32 a))"

definition js_sar :: "int \<Rightarrow> int \<Rightarrow> int" where
  "js_sar a n = drop_bit (nat (n mod 32)) (toInt32 a)"

text \<open>
  A bitwise operator applied to a boolean operand converts \<open>true\<close> to 1 and
  \<open>false\<close> to 0.
\<close>

definition js_bool :: "bool \<Rightarrow> int" where
  "js_bool b = (if b then 1 else 0)"

text \<open>
  An integer result that does not fit the 53-bit significand of a double is rounded to
  the nearest double, ties to even. Integers of magnitude below \<open>2 ^ 53\<close> are exact.
\<close>

fun bitlen :: "nat \<Rightarrow> nat" where
  "bitlen n = (if n = 0 then 0 else Suc (bitlen (n div 2)))"

definition toDouble :: "int \<Rightarrow> int" where
  "toDouble n =
     (let a = \<bar>n\<bar> in
      if a < 2 ^ 53 then n
      else
        (let e = bitlen (nat a) - 53;
             q = a div 2 ^ e;
             r = a mod 2 ^ e;
             q' = (if 2 * r > 2 ^ e \<or> (2 * r = 2 ^ e \<and> odd q) then q + 1 else q)
         in sgn n * q' * 2 ^ e))"

subsection \<open>Strings: \<open>toString(16)\<close>, \<open>substring\<close>, \<open>parseInt(_, 16)\<close>\<close>

definition hexdigit :: "nat \<Rightarrow> char" where
  "hexdigit d = ''0123456789abcdef'' ! d"

fun hexstr :: "nat \<Rightarrow> string" where
  "hexstr n = (if n < 16 then [hexdigit n] else hexstr (n div 16) @ [hexdigit (n mod 16)])"

text \<open>\<open>num.toString(16)\<close> for an integer \<open>num\<close>.\<close>

definition toString16 :: "int \<Rightarrow> string" where
  "toString16 num = (if num < 0 then CHR ''-'' # hexstr (nat (- num)) else hexstr (nat num))"

text \<open>\<open>s.substring(a, b)\<close>: both indices are clamped to the string, and swapped when \<open>a > b\<close>.\<close>

definition substring :: "string \<Rightarrow> int \<Rightarrow> int \<Rightarrow> string" where
  "substring s a b =
     (let n = int (length s);
          a' = max 0 (min a n);
          b' = max 0 (min b n);
          lo = min a' b';
          hi = max a' b'
      in take (nat (hi - lo)) (drop (nat lo) s))"

text \<open>\<open>s.substring(a)\<close>\<close>

definition substring_from :: "string \<Rightarrow> int \<Rightarrow> string" where
  "substring_from s a = substring s a (int (length s))"

definition hexval :: "char \<Rightarrow> nat option" where
  "hexval c =
     (let k = (of_char c :: nat) in
      if 48 \<le> k \<and> k \<le> 57 then Some (k - 48)
      else if 97 \<le> k \<and> k \<le> 102 then Some (k - 87)
      else if 65 \<le> k \<and> k \<le> 70 then Some (k - 55)
      else None)"

text \<open>
  \<open>parseInt(s, 16)\<close> reads the longest prefix of hexadecimal digits and rounds the value
  to a double. Every string parsed by the codec is cut from the output of \<open>paddedHex\<close>
  on a number that is not negative, so it starts with a digit: the sign, white space
  and \<open>0x\<close> prefixes that \<open>parseInt\<close> also accepts, and its \<open>NaN\<close> result on a string
  without a leading digit, are left out (the model returns 0 for such a string).
\<close>

definition parseInt16 :: "string \<Rightarrow> int" where
  "parseInt16 s =
     toDouble (foldl (\<lambda>acc c. 16 * acc + int (the (hexval c))) 0
                 (takeWhile (\<lambda>c. hexval c \<noteq> None) s))"

text \<open>\<open>paddedHex\<close> (part_000, lines 85-88)\<close>

definition paddedHex :: "int \<Rightarrow> int \<Rightarrow> string" where
  "paddedHex num width =
     (let padded = ''000000000000000000'' @ toString16 num
      in substring_from padded (int (length padded) - width))"

section \<open>JavaScript numbers that are not integers: IEEE-754 doubles\<close>

text \<open>
  \<open>writeDouble\<close> and \<open>readDouble\<close> compute with numbers that are fractions, infinite or
  \<open>NaN\<close>. \<open>Finite s m e\<close> is the double \<open>(-1) ^ s * m * 2 ^ e\<close>; every double has one
  such form with \<open>0 \<le> m < 2 ^ 53\<close>, \<open>- 1074 \<le> e \<le> 971\<close> and \<open>2 ^ 52 \<le> m\<close> unless
  \<open>e = - 1074\<close> (zero and the subnormal numbers). \<open>Infinite s\<close> is \<open>Infinity\<close> or
  \<open>-Infinity\<close>.
\<close>

datatype double = Finite bool int int | Infinite bool | NaN

text \<open>
  The result of every arithmetic operation is the exact result rounded to the nearest
  double, ties to even, with overflow to infinity. \<open>round_double s m e\<close> rounds the
  exact number \<open>(-1) ^ s * m * 2 ^ e\<close>, for \<open>m \<ge> 0\<close>.
\<close>

definition round_double :: "bool \<Rightarrow> int \<Rightarrow> int \<Rightarrow> double" where
  "round_double s m e =
     (if m = 0 then Finite s 0 (- 1074)
      else
        (let t = max (e + int (bitlen (nat m)) - 53) (- 1074);
             q = (if t \<le> e then m * 2 ^ nat (e - t)
                  else
                    (let k = nat (t - e);
                         d = m div 2 ^ k;
                         r = m mod 2 ^ k
                     in if 2 * r > 2 ^ k \<or> (2 * r = 2 ^ k \<and> odd d) then d + 1 else d));
             t' = (if q = 2 ^ 53 then t + 1 else t);
             q' = (if q = 2 ^ 53 then 2 ^ 52 else q)
         in if t' > 971 then Infinite s else Finite s q' t'))"

definition d_of_int :: "int \<Rightarrow> double" where
  "d_of_int n = round_double (n < 0) \<bar>n\<bar> 0"

definition signed :: "bool \<Rightarrow> int \<Rightarrow> int" where
  "signed s m = (if s then - m else m)"

fun d_neg :: "double \<Rightarrow> double" where
  "d_neg (Finite s m e) = Finite (\<not> s) m e"
| "d_neg (Infinite s) = Infinite (\<not> s)"
| "d_neg NaN = NaN"

text \<open>\<open>Math.abs\<close>\<close>

fun d_abs :: "double \<Rightarrow> double" where
  "d_abs (Finite s m e) = Finite False m e"
| "d_abs (Infinite s) = Infinite False"
| "d_abs NaN = NaN"

text \<open>\<open>x + y\<close> and \<open>x - y\<close>\<close>

fun d_add :: "double \<Rightarrow> double \<Rightarrow> double" where
  "d_add (Finite s1 m1 e1) (Finite s2 m2 e2) =
     (let e = min e1 e2;
          v = signed s1 m1 * 2 ^ nat (e1 - e) + signed s2 m2 * 2 ^ nat (e2 - e)
      in if v = 0 then Finite (s1 \<and> s2) 0 (- 1074) else round_double (v < 0) \<bar>v\<bar> e)"
| "d_add (Infinite s1) (Infinite s2) = (if s1 = s2 then Infinite s1 else NaN)"
| "d_add (Infinite s1) (Finite s2 m2 e2) = Infinite s1"
| "d_add (Finite s1 m1 e1) (Infinite s2) = Infinite s2"
| "d_add NaN y = NaN"
| "d_add x NaN = NaN"

definition d_sub :: "double \<Rightarrow> double \<Rightarrow> double" where
  "d_sub x y = d_add x (d_neg y)"

text \<open>\<open>x * y\<close>\<close>

fun d_mul :: "double \<Rightarrow> double \<Rightarrow> double" where
  "d_mul (Finite s1 m1 e1) (Finite s2 m2 e2) = round_double (s1 \<noteq> s2) (m1 * m2) (e1 + e2)"
| "d_mul (Infinite s1) (Infinite s2) = Infinite (s1 \<noteq> s2)"
| "d_mul (Infinite s1) (Finite s2 m2 e2) = (if m2 = 0 then NaN else Infinite (s1 \<noteq> s2))"
| "d_mul (Finite s1 m1 e1) (Infinite s2) = (if m1 = 0 then NaN else Infinite (s1 \<noteq> s2))"
| "d_mul NaN y = NaN"
| "d_mul x NaN = NaN"

text \<open>
  \<open>x / y\<close>. The quotient of two finite numbers is computed with more than 64 binary
  digits and one more digit that says whether the division left a remainder; rounding
  this number gives the rounded quotient.
\<close>

fun d_div :: "double \<Rightarrow> double \<Rightarrow> double" where
  "d_div (Finite s1 m1 e1) (Finite s2 m2 e2) =
     (if m2 = 0 then (if m1 = 0 then NaN else Infinite (s1 \<noteq> s2))
      else
        (let k = 64 + bitlen (nat m2);
             n = (m1 * 2 ^ k) div m2;
             r = (m1 * 2 ^ k) mod m2
         in round_double (s1 \<noteq> s2) (2 * n + (if r = 0 then 0 else 1)) (e1 - e2 - int k - 1)))"
| "d_div (Infinite s1) (Infinite s2) = NaN"
| "d_div (Infinite s1) (Finite s2 m2 e2) = Infinite (s1 \<noteq> s2)"
| "d_div (Finite s1 m1 e1) (Infinite s2) = Finite (s1 \<noteq> s2) 0 (- 1074)"
| "d_div NaN y = NaN"
| "d_div x NaN = NaN"

text \<open>
  \<open>x % y\<close>: the remainder has the sign of \<open>x\<close> and is exact.
\<close>

fun d_rem :: "double \<Rightarrow> double \<Rightarrow> double" where
  "d_rem (Finite s1 m1 e1) (Finite s2 m2 e2) =
     (if m2 = 0 then NaN
      else
        (let e = min e1 e2
         in round_double s1 ((m1 * 2 ^ nat (e1 - e)) mod (m2 * 2 ^ nat (e2 - e))) e))"
| "d_rem (Finite s1 m1 e1) (Infinite s2) = Finite s1 m1 e1"
| "d_rem (Infinite s1) y = NaN"
| "d_rem NaN y = NaN"
| "d_rem x NaN = NaN"

text \<open>\<open>Math.floor\<close>\<close>

fun d_floor :: "double \<Rightarrow> double" where
  "d_floor (Finite s m e) =
     (if e \<ge> 0 \<or> m = 0 then Finite s m e
      else
        (let n = signed s m div 2 ^ nat (- e)
         in if n = 0 then Finite False 0 (- 1074) else d_of_int n))"
| "d_floor (Infinite s) = Infinite s"
| "d_floor NaN = NaN"

text \<open>\<open>x < y\<close>, \<open>x === y\<close>, \<open>x >= y\<close> and \<open>x > y\<close>\<close>

fun d_lt :: "double \<Rightarrow> double \<Rightarrow> bool" where
  "d_lt (Finite s1 m1 e1) (Finite s2 m2 e2) =
     (let e = min e1 e2
      in signed s1 m1 * 2 ^ nat (e1 - e) < signed s2 m2 * 2 ^ nat (e2 - e))"
| "d_lt (Infinite s1) (Infinite s2) = (s1 \<and> \<not> s2)"
| "d_lt (Infinite s1) (Finite s2 m2 e2) = s1"
| "d_lt (Finite s1 m1 e1) (Infinite s2) = (\<not> s2)"
| "d_lt NaN y = False"
| "d_lt x NaN = False"

fun d_eq :: "double \<Rightarrow> double \<Rightarrow> bool" where
  "d_eq (Finite s1 m1 e1) (Finite s2 m2 e2) =
     (let e = min e1 e2
      in signed s1 m1 * 2 ^ nat (e1 - e) = signed s2 m2 * 2 ^ nat (e2 - e))"
| "d_eq (Infinite s1) (Infinite s2) = (s1 = s2)"
| "d_eq (Infinite s1) (Finite s2 m2 e2) = False"
| "d_eq (Finite s1 m1 e1) (Infinite s2) = False"
| "d_eq NaN y = False"
| "d_eq x NaN = False"

definition d_ge :: "double \<Rightarrow> double \<Rightarrow> bool" where
  "d_ge x y = (if d_lt y x then True else d_eq x y)"

definition d_gt :: "double \<Rightarrow> double \<Rightarrow> bool" where
  "d_gt x y = d_lt y x"

text \<open>\<open>Math.min\<close>: \<open>NaN\<close> if an argument is \<open>NaN\<close>, and \<open>-0\<close> is below \<open>+0\<close>.\<close>

fun is_negative_zero :: "double \<Rightarrow> bool" where
  "is_negative_zero (Finite s m e) = (s \<and> m = 0)"
| "is_negative_zero (Infinite s) = False"
| "is_negative_zero NaN = False"

definition d_min :: "double \<Rightarrow> double \<Rightarrow> double" where
  "d_min x y =
     (if x = NaN then NaN
      else if y = NaN then NaN
      else if d_lt x y then x
      else if d_lt y x then y
      else if is_negative_zero x then x
      else y)"

text \<open>
  \<open>Math.pow(2, y)\<close>. The two functions call it with exponents that are integers,
  infinite or \<open>NaN\<close>, and the power of two is then exact, infinite (overflow) or zero
  (underflow; below \<open>2 ^ - 1075\<close> the nearest double is 0). For an exponent with a
  fraction the result depends on the implementation; the model returns \<open>NaN\<close> there.
\<close>

fun d_pow2 :: "double \<Rightarrow> double" where
  "d_pow2 (Finite s m e) =
     (if e \<ge> 0 then
        (let k = signed s m * 2 ^ nat e
         in if k < - 1075 then Finite False 0 (- 1074) else round_double False 1 k)
      else if m mod 2 ^ nat (- e) = 0 then
        (let k = signed s (m div 2 ^ nat (- e))
         in if k < - 1075 then Finite False 0 (- 1074) else round_double False 1 k)
      else NaN)"
| "d_pow2 (Infinite s) = (if s then Finite False 0 (- 1074) else Infinite False)"
| "d_pow2 NaN = NaN"

text \<open>The test of a number in a condition: zero and \<open>NaN\<close> count as false.\<close>

fun truthy :: "double \<Rightarrow> bool" where
  "truthy (Finite s m e) = (m \<noteq> 0)"
| "truthy (Infinite s) = True"
| "truthy NaN = False"

text \<open>\<open>Math.LN2\<close>, the double \<open>0.6931471805599453\<close>\<close>

definition Math_LN2 :: double where
  "Math_LN2 = Finite False 6243314768165359 (- 53)"

text \<open>
  \<open>parseInt(s, 2)\<close> on a string of binary digits, and \<open>bits.join('')\<close> on an array whose
  elements are 0 and 1. As for \<open>parseInt16\<close>, the model returns 0 where \<open>parseInt\<close> returns
  \<open>NaN\<close>, on a string that does not start with a binary digit; \<open>writeDouble\<close> and
  \<open>readDouble\<close> parse strings of binary digits that are not empty.
\<close>

definition binval :: "char \<Rightarrow> nat option" where
  "binval c = (if c = CHR ''0'' then Some 0 else if c = CHR ''1'' then Some 1 else None)"

definition parseInt2 :: "string \<Rightarrow> int" where
  "parseInt2 s =
     toDouble (foldl (\<lambda>acc c. 2 * acc + int (the (binval c))) 0
                 (takeWhile (\<lambda>c. binval c \<noteq> None) s))"

definition join_bits :: "int list \<Rightarrow> string" where
  "join_bits bits = map (\<lambda>b. if b = 1 then CHR ''1'' else CHR ''0'') bits"

section \<open>Errors\<close>

text \<open>
  Every \<open>throw\<close> of the source is a value of \<open>error\<close>:
  \<^item> \<open>OutOfRange\<close>: the range checks of \<open>pack16\<close>, \<open>pack32\<close>, \<open>pack64\<close> (messages
    "Number is less than the minimum ... value", "Number is greater than the maximum ...
    value") and of \<open>writeByte\<close> ("... is incorrect for byte.");
  \<^item> \<open>SizeMismatch\<close>: the length checks of \<open>unpack16\<close>, \<open>unpack32\<close>, \<open>unpack64\<close>;
  \<^item> \<open>MissingVersionIdentifier\<close>, \<open>InvalidVersionIdentifier\<close>: the two reasons thrown
    by \<open>readMessageBegin\<close>;
  \<^item> \<open>ChannelError\<close>: a failure of the transport;
  \<^item> \<open>TypeError\<close>: the exception JavaScript raises when a property of \<open>undefined\<close>
    is read.
\<close>

datatype error =
    OutOfRange
  | SizeMismatch
  | MissingVersionIdentifier
  | InvalidVersionIdentifier
  | ChannelError
  | TypeError

definition and_then :: "error + 'a \<Rightarrow> ('a \<Rightarrow> error + 'b) \<Rightarrow> error + 'b" where
  "and_then m f = (case m of Inl e \<Rightarrow> Inl e | Inr x \<Rightarrow> f x)"

section \<open>Primitive packers and unpackers (part_000, lines 97-272)\<close>

definition int64max :: int where "int64max = 0x1fffffffffffff"
definition int64min :: int where "int64min = - int64max"
definition int32max :: int where "int32max = 0x7fffffff"
definition int32min :: int where "int32min = - int32max"
definition int16max :: int where "int16max = 0x7fff"
definition int16min :: int where "int16min = - int16max"

text \<open>
  The two loops of \<open>p64\<close> run \<open>i\<close> from 8 down to 1 and push one byte each; \<open>flip\<close>
  says whether the byte is complemented (the branch for a negative number).
\<close>

fun p64_loop :: "nat \<Rightarrow> string \<Rightarrow> bool \<Rightarrow> int list \<Rightarrow> int list" where
  "p64_loop 0 hexString flip result = result"
| "p64_loop (Suc k) hexString flip result =
     (let i = int (Suc k);
          byte = parseInt16 (substring hexString (i * 2 - 2) (i * 2))
      in p64_loop k hexString flip (result @ [if flip then js_xor byte 255 else byte]))"

definition p64 :: "int \<Rightarrow> int list" where
  "p64 i64 =
     (if i64 < 0 then
        (let hexString = paddedHex \<bar>i64 + 1\<bar> 16
         in rev (p64_loop 8 hexString True []))
      else
        (let hexString = paddedHex \<bar>i64\<bar> 16
         in rev (p64_loop 8 hexString False [])))"

text \<open>
  \<open>u64\<close> tests \<open>packed[0] & parseInt('01111111', 2)\<close>, that is, the low seven bits
  of the first byte. \<open>packed\<close> has eight elements (\<open>unpack64\<close> checks it).
\<close>

definition u64 :: "int list \<Rightarrow> int" where
  "u64 packed =
     (if js_and (packed ! 0) 127 \<noteq> 0 then
        (let hexString = foldl (\<lambda>h v. h @ paddedHex (js_xor v 255) 2) [] packed
         in toDouble (- parseInt16 hexString - 1))
      else
        (let hexString = foldl (\<lambda>h v. h @ paddedHex v 2) [] packed
         in parseInt16 hexString))"

definition pack64 :: "int \<Rightarrow> error + int list" where
  "pack64 i64 =
     (if i64 < int64min then Inl OutOfRange
      else if i64 > int64max then Inl OutOfRange
      else Inr (p64 i64))"

definition unpack64 :: "int list \<Rightarrow> error + int" where
  "unpack64 packed = (if length packed \<noteq> 8 then Inl SizeMismatch else Inr (u64 packed))"

definition p32 :: "int \<Rightarrow> int list" where
  "p32 v =
     (let p1 = js_and v 255;
          p2 = js_and (js_sar v 8) 255;
          p3 = js_and (js_sar v 16) 255;
          p4 = js_and (js_sar v 24) 255
      in [p4, p3, p2, p1])"

definition u32 :: "int list \<Rightarrow> int" where
  "u32 packed =
     (let v = 0;
          v = js_or v (js_shl (packed ! 0) 24);
          v = js_or v (js_shl (packed ! 1) 16);
          v = js_or v (js_shl (packed ! 2) 8);
          v = js_or v (packed ! 3)
      in v)"

definition pack32 :: "int \<Rightarrow> error + int list" where
  "pack32 v =
     (if v < int32min then Inl OutOfRange
      else if v > int32max then Inl OutOfRange
      else Inr (p32 v))"

definition unpack32 :: "int list \<Rightarrow> error + int" where
  "unpack32 packed = (if length packed \<noteq> 4 then Inl SizeMismatch else Inr (u32 packed))"

definition p16 :: "int \<Rightarrow> int list" where
  "p16 v =
     (let p1 = js_and v 255;
          p2 = js_and (js_sar v 8) 255
      in [p2, p1])"

definition pack16 :: "int \<Rightarrow> error + int list" where
  "pack16 v =
     (if v < int16min then Inl OutOfRange
      else if v > int16max then Inl OutOfRange
      else Inr (p16 v))"

definition u16 :: "int list \<Rightarrow> int" where
  "u16 packed =
     (let v = 0 in
      if js_and (packed ! 0) 128 \<noteq> 0 then
        (let v = js_or v (js_shl (js_xor (packed ! 0) 255) 8);
             v = js_or v (js_xor (packed ! 1) 255)
         in - v - 1)
      else
        (let v = js_or v (js_shl (packed ! 0) 8);
             v = js_or v (packed ! 1)
         in v))"

definition unpack16 :: "int list \<Rightarrow> error + int" where
  "unpack16 packed = (if length packed \<noteq> 2 then Inl SizeMismatch else Inr (u16 packed))"


section \<open>External collaborators\<close>

text \<open>
  Modelled from the spec: the byte channel (\<open>Thrift.Transport\<close>) is not under src/.
  The spec describes it as an ordered byte channel with \<open>writeByte(b)\<close>,
  \<open>write(bytes)\<close>, \<open>readByte()\<close> and \<open>read(n)\<close>, where \<open>read(n)\<close> returns exactly
  \<open>n\<close> bytes or fails. \<open>wbuf\<close> holds the values handed to the channel, in call order;
  \<open>rbuf\<close> holds the bytes still to be read, each between 0 and 255.
\<close>

record TTransport =
  rbuf :: "int list"
  wbuf :: "int list"

definition transport_writeByte :: "TTransport \<Rightarrow> int \<Rightarrow> error + TTransport" where
  "transport_writeByte t b = Inr (t\<lparr>wbuf := wbuf t @ [b]\<rparr>)"

definition transport_write :: "TTransport \<Rightarrow> int list \<Rightarrow> error + TTransport" where
  "transport_write t bytes = Inr (t\<lparr>wbuf := wbuf t @ bytes\<rparr>)"

definition transport_readByte :: "TTransport \<Rightarrow> error + (int \<times> TTransport)" where
  "transport_readByte t =
     (case rbuf t of [] \<Rightarrow> Inl ChannelError | b # bs \<Rightarrow> Inr (b, t\<lparr>rbuf := bs\<rparr>))"

definition transport_read :: "TTransport \<Rightarrow> int \<Rightarrow> error + (int list \<times> TTransport)" where
  "transport_read t len =
     (if len < 0 \<or> int (length (rbuf t)) < len then Inl ChannelError
      else Inr (take (nat len) (rbuf t), t\<lparr>rbuf := drop (nat len) (rbuf t)\<rparr>))"

text \<open>
  Modelled from the spec: the text codec (\<open>./utf8\<close>, with \<open>encode\<close> and \<open>decode\<close>) is
  not under src/. The functions that use it take it as the parameter \<open>utf8\<close>.
  \<open>utf8_codec\<close> is UTF-8 on strings whose code points are below 256, the characters of
  \<open>string\<close>: one byte below 128, two bytes from 128 on.
\<close>

record utf8 =
  encode :: "string \<Rightarrow> int list"
  decode :: "int list \<Rightarrow> string"

fun utf8_encode :: "string \<Rightarrow> int list" where
  "utf8_encode [] = []"
| "utf8_encode (c # cs) =
     (let k = (of_char c :: int)
      in (if k < 128 then [k] else [192 + k div 64, 128 + k mod 64]) @ utf8_encode cs)"

fun utf8_decode :: "int list \<Rightarrow> string" where
  "utf8_decode [] = []"
| "utf8_decode [b] = [char_of b]"
| "utf8_decode (b # c # bs) =
     (if b < 128 then char_of b # utf8_decode (c # bs)
      else char_of ((b mod 32) * 64 + c mod 64) # utf8_decode bs)"

definition utf8_codec :: utf8 where
  "utf8_codec = \<lparr>encode = utf8_encode, decode = utf8_decode\<rparr>"

text \<open>
  Modelled from the spec: the type tags \<open>Thrift.Type\<close> and the message kinds
  \<open>Thrift.MessageType\<close> are defined in \<open>../core\<close>, which is not under src/. The spec
  names them (STOP, BOOL, BYTE, I16, I32, I64, DOUBLE, STRING, STRUCT, MAP, SET, LIST;
  CALL, REPLY, EXCEPTION, ONEWAY); its scenario for the message \<open>("ping", CALL, 42)\<close>
  fixes CALL = 1. The numbers are those of the Thrift wire format.
\<close>

definition Type_STOP :: int where "Type_STOP = 0"
definition Type_BOOL :: int where "Type_BOOL = 2"
definition Type_BYTE :: int where "Type_BYTE = 3"
definition Type_DOUBLE :: int where "Type_DOUBLE = 4"
definition Type_I16 :: int where "Type_I16 = 6"
definition Type_I32 :: int where "Type_I32 = 8"
definition Type_I64 :: int where "Type_I64 = 10"
definition Type_STRING :: int where "Type_STRING = 11"
definition Type_STRUCT :: int where "Type_STRUCT = 12"
definition Type_MAP :: int where "Type_MAP = 13"
definition Type_SET :: int where "Type_SET = 14"
definition Type_LIST :: int where "Type_LIST = 15"

definition MessageType_CALL :: int where "MessageType_CALL = 1"
definition MessageType_REPLY :: int where "MessageType_REPLY = 2"
definition MessageType_EXCEPTION :: int where "MessageType_EXCEPTION = 3"
definition MessageType_ONEWAY :: int where "MessageType_ONEWAY = 4"

section \<open>The protocol object (part_000, lines 71-83)\<close>

record TBinaryProtocol =
  transport :: TTransport
  strictRead :: bool
  strictWrite :: bool
  rstack :: "int list"

text \<open>The constructor; an argument that is left out (\<open>undefined\<close>) is \<open>None\<close>.\<close>

definition new_TBinaryProtocol :: "TTransport \<Rightarrow> bool option \<Rightarrow> bool option \<Rightarrow> TBinaryProtocol" where
  "new_TBinaryProtocol t sr sw =
     \<lparr>transport = t,
      strictRead = (case sr of Some b \<Rightarrow> b | None \<Rightarrow> False),
      strictWrite = (case sw of Some b \<Rightarrow> b | None \<Rightarrow> False),
      rstack = []\<rparr>"

text \<open>
  The constructor sets \<open>transport\<close>, \<open>strictRead\<close>, \<open>strictWrite\<close> and \<open>rstack\<close>, and the
  prototype (lines 274-800) holds functions only. Nothing assigns \<open>this.rpos\<close>, so reading
  that property gives \<open>undefined\<close>, here \<open>None\<close>.
\<close>

definition rpos :: "TBinaryProtocol \<Rightarrow> int list option" where
  "rpos p = None"

definition VERSION_MASK :: int where "VERSION_MASK = 0xffff0000"
definition VERSION_1 :: int where "VERSION_1 = 0x80010000"
definition TYPE_MASK :: int where "TYPE_MASK = 0x000000ff"

text \<open>A call on \<open>this.transport\<close> that changes the channel, seen from the protocol object.\<close>

definition on_transport :: "TBinaryProtocol \<Rightarrow> error + TTransport \<Rightarrow> error + TBinaryProtocol" where
  "on_transport p r = and_then r (\<lambda>t. Inr (p\<lparr>transport := t\<rparr>))"

definition from_transport :: "TBinaryProtocol \<Rightarrow> error + ('a \<times> TTransport) \<Rightarrow> error + ('a \<times> TBinaryProtocol)" where
  "from_transport p r = and_then r (\<lambda>(x, t). Inr (x, p\<lparr>transport := t\<rparr>))"

section \<open>Frame writer (part_000, lines 284-486)\<close>

definition writeByte :: "TBinaryProtocol \<Rightarrow> int \<Rightarrow> error + TBinaryProtocol" where
  "writeByte p byte =
     (if byte \<le> 2 ^ 31 * - 1 \<or> byte \<ge> 2 ^ 31 then Inl OutOfRange
      else on_transport p (transport_writeByte (transport p) byte))"

text \<open>\<open>bytes.forEach(function (byte) { this.transport.writeByte(byte); })\<close>\<close>

fun forEach_writeByte :: "TBinaryProtocol \<Rightarrow> int list \<Rightarrow> error + TBinaryProtocol" where
  "forEach_writeByte p [] = Inr p"
| "forEach_writeByte p (byte # bytes) =
     and_then (on_transport p (transport_writeByte (transport p) byte))
       (\<lambda>p. forEach_writeByte p bytes)"

definition writeI16 :: "TBinaryProtocol \<Rightarrow> int \<Rightarrow> error + TBinaryProtocol" where
  "writeI16 p i16 = and_then (pack16 i16) (\<lambda>bytes. forEach_writeByte p bytes)"

definition writeI32 :: "TBinaryProtocol \<Rightarrow> int \<Rightarrow> error + TBinaryProtocol" where
  "writeI32 p i32 = and_then (pack32 i32) (\<lambda>bytes. forEach_writeByte p bytes)"

definition writeI64 :: "TBinaryProtocol \<Rightarrow> int \<Rightarrow> error + TBinaryProtocol" where
  "writeI64 p i64 = and_then (pack64 i64) (\<lambda>bytes. forEach_writeByte p bytes)"

definition writeBool :: "TBinaryProtocol \<Rightarrow> bool \<Rightarrow> error + TBinaryProtocol" where
  "writeBool p b = writeByte p (if b then 1 else 0)"

text \<open>
  \<open>writeDouble\<close> (lines 420-473). \<open>Math.log\<close> is approximated by the implementation
  and is the parameter \<open>Math_log\<close>. The variables \<open>e\<close> and \<open>f\<close> hold doubles; the sign
  \<open>s\<close> holds 0, 1 or a boolean and is only tested. The two \<open>for\<close> loops push one
  bit for \<open>x % 2\<close> and go on with \<open>Math.floor(x / 2)\<close>; the \<open>while\<close> loop writes
  the joined bits, eight at a time.
\<close>

fun push_bits :: "nat \<Rightarrow> double \<Rightarrow> int list \<Rightarrow> int list" where
  "push_bits 0 x bits = bits"
| "push_bits (Suc i) x bits =
     push_bits i (d_floor (d_div x (d_of_int 2)))
       (bits @ [if truthy (d_rem x (d_of_int 2)) then 1 else 0])"

function write_bit_string :: "TBinaryProtocol \<Rightarrow> string \<Rightarrow> error + TBinaryProtocol" where
  "write_bit_string p str =
     (if length str = 0 then Inr p
      else
        and_then
          (on_transport p (transport_writeByte (transport p) (parseInt2 (substring str 0 8))))
          (\<lambda>p. write_bit_string p (substring_from str 8)))"
  by pat_completeness auto
termination
  by (relation "measure (\<lambda>(p, str). length str)")
     (auto simp: substring_from_def substring_def Let_def)

definition writeDouble ::
    "(double \<Rightarrow> double) \<Rightarrow> TBinaryProtocol \<Rightarrow> double \<Rightarrow> error + TBinaryProtocol" where
  "writeDouble Math_log p dub =
     (let ebits = 11;
          fbits = 52;
          bias = js_shl 1 (ebits - 1) - 1;
          (s, e, f) =
            (if dub = NaN then
               (False, d_of_int (js_shl 1 bias - 1), d_of_int 1)
             else if d_eq dub (Infinite False) \<or> d_eq dub (Infinite True) then
               (d_lt dub (d_of_int 0), d_of_int (js_shl 1 bias - 1), d_of_int 0)
             else if d_eq dub (d_of_int 0) then
               (d_eq (d_div (d_of_int 1) dub) (Infinite True), d_of_int 0, d_of_int 0)
             else
               (let s = d_lt dub (d_of_int 0);
                    dub = d_abs dub
                in if d_ge dub (d_pow2 (d_of_int (1 - bias))) then
                     (let ln = d_min (d_floor (d_div (Math_log dub) Math_LN2)) (d_of_int bias)
                      in (s, d_add ln (d_of_int bias),
                          d_sub (d_mul dub (d_pow2 (d_sub (d_of_int fbits) ln)))
                            (d_pow2 (d_of_int fbits))))
                   else
                     (s, d_of_int 0, d_div dub (d_pow2 (d_of_int (1 - bias - fbits))))));
          bits = push_bits (nat fbits) f [];
          bits = push_bits (nat ebits) e bits;
          bits = bits @ [if s then 1 else 0];
          bits = rev bits;
          str = join_bits bits
      in write_bit_string p str)"

definition writeString :: "utf8 \<Rightarrow> TBinaryProtocol \<Rightarrow> string \<Rightarrow> error + TBinaryProtocol" where
  "writeString utf8 p str =
     (let bytes = encode utf8 str
      in and_then (writeI32 p (int (length bytes)))
           (\<lambda>p. on_transport p (transport_write (transport p) bytes)))"

definition writeBinary :: "TBinaryProtocol \<Rightarrow> int list \<Rightarrow> error + TBinaryProtocol" where
  "writeBinary p buf =
     and_then (writeI32 p (int (length buf)))
       (\<lambda>p. on_transport p (transport_write (transport p) buf))"

definition writeMessageBegin ::
    "utf8 \<Rightarrow> TBinaryProtocol \<Rightarrow> string \<Rightarrow> int \<Rightarrow> int \<Rightarrow> error + TBinaryProtocol" where
  "writeMessageBegin utf8 p name type seqid =
     (if strictWrite p then
        and_then (writeI16 p (js_sar VERSION_1 16)) (\<lambda>p.
        and_then (writeI16 p type) (\<lambda>p.
        and_then (writeString utf8 p name) (\<lambda>p.
        writeI32 p seqid)))
      else
        and_then (writeString utf8 p name) (\<lambda>p.
        and_then (writeByte p type) (\<lambda>p.
        writeI32 p seqid)))"

definition writeMessageEnd :: "TBinaryProtocol \<Rightarrow> error + TBinaryProtocol" where
  "writeMessageEnd p = Inr p"

definition writeStructBegin :: "TBinaryProtocol \<Rightarrow> string \<Rightarrow> error + TBinaryProtocol" where
  "writeStructBegin p name = Inr p"

definition writeStructEnd :: "TBinaryProtocol \<Rightarrow> error + TBinaryProtocol" where
  "writeStructEnd p = Inr p"

definition writeFieldBegin :: "TBinaryProtocol \<Rightarrow> string \<Rightarrow> int \<Rightarrow> int \<Rightarrow> error + TBinaryProtocol" where
  "writeFieldBegin p name type fieldId = and_then (writeByte p type) (\<lambda>p. writeI16 p fieldId)"

definition writeFieldEnd :: "TBinaryProtocol \<Rightarrow> error + TBinaryProtocol" where
  "writeFieldEnd p = Inr p"

definition writeFieldStop :: "TBinaryProtocol \<Rightarrow> error + TBinaryProtocol" where
  "writeFieldStop p = writeByte p Type_STOP"

definition writeMapBegin :: "TBinaryProtocol \<Rightarrow> int \<Rightarrow> int \<Rightarrow> int \<Rightarrow> error + TBinaryProtocol" where
  "writeMapBegin p keyType valType sz =
     and_then (writeByte p keyType) (\<lambda>p.
     and_then (writeByte p valType) (\<lambda>p.
     writeI32 p sz))"

definition writeMapEnd :: "TBinaryProtocol \<Rightarrow> error + TBinaryProtocol" where
  "writeMapEnd p = Inr p"

definition writeListBegin :: "TBinaryProtocol \<Rightarrow> int \<Rightarrow> int \<Rightarrow> error + TBinaryProtocol" where
  "writeListBegin p elemType sz = and_then (writeByte p elemType) (\<lambda>p. writeI32 p sz)"

definition writeListEnd :: "TBinaryProtocol \<Rightarrow> error + TBinaryProtocol" where
  "writeListEnd p = Inr p"

definition writeSetBegin :: "TBinaryProtocol \<Rightarrow> int \<Rightarrow> int \<Rightarrow> error + TBinaryProtocol" where
  "writeSetBegin p elemType sz = and_then (writeByte p elemType) (\<lambda>p. writeI32 p sz)"

definition writeSetEnd :: "TBinaryProtocol \<Rightarrow> error + TBinaryProtocol" where
  "writeSetEnd p = Inr p"

section \<open>Frame reader (part_000, lines 498-737)\<close>

text \<open>
  The objects returned by \<open>readMessageBegin\<close>, \<open>readFieldBegin\<close>, \<open>readMapBegin\<close> and
  \<open>readListBegin\<close>/\<open>readSetBegin\<close>. The field header's \<open>fname\<close> is \<open>field_fname\<close> here, and
  the two \<open>size\<close> members are \<open>map_size\<close> and \<open>col_size\<close>.
\<close>

record AnonReadMessageBeginReturn =
  fname :: string
  mtype :: int
  rseqid :: int

record AnonReadFieldBeginReturn =
  field_fname :: string
  ftype :: int
  fid :: int

record AnonReadMapBeginReturn =
  ktype :: int
  vtype :: int
  map_size :: int

record AnonReadColBeginReturn =
  etype :: int
  col_size :: int

definition readByte :: "TBinaryProtocol \<Rightarrow> error + (int \<times> TBinaryProtocol)" where
  "readByte p =
     and_then (from_transport p (transport_readByte (transport p))) (\<lambda>(val, p).
       Inr (if val > 127 then 0 - js_xor (val - 1) 255 else val, p))"

text \<open>\<open>for (i = 0; i < n; i += 1) { packed.push(this.transport.readByte()); }\<close>\<close>

fun readByte_loop :: "nat \<Rightarrow> TTransport \<Rightarrow> int list \<Rightarrow> error + (int list \<times> TTransport)" where
  "readByte_loop 0 t packed = Inr (packed, t)"
| "readByte_loop (Suc n) t packed =
     and_then (transport_readByte t) (\<lambda>(b, t). readByte_loop n t (packed @ [b]))"

definition readI16 :: "TBinaryProtocol \<Rightarrow> error + (int \<times> TBinaryProtocol)" where
  "readI16 p =
     and_then (from_transport p (readByte_loop 2 (transport p) [])) (\<lambda>(packed, p).
     and_then (unpack16 packed) (\<lambda>v. Inr (v, p)))"

definition readI32 :: "TBinaryProtocol \<Rightarrow> error + (int \<times> TBinaryProtocol)" where
  "readI32 p =
     and_then (from_transport p (readByte_loop 4 (transport p) [])) (\<lambda>(packed, p).
     and_then (unpack32 packed) (\<lambda>v. Inr (v, p)))"

definition readI64 :: "TBinaryProtocol \<Rightarrow> error + (int \<times> TBinaryProtocol)" where
  "readI64 p =
     and_then (from_transport p (readByte_loop 8 (transport p) [])) (\<lambda>(packed, p).
     and_then (unpack64 packed) (\<lambda>v. Inr (v, p)))"

definition readBool :: "TBinaryProtocol \<Rightarrow> error + (bool \<times> TBinaryProtocol)" where
  "readBool p = and_then (readByte p) (\<lambda>(byte, p). Inr (byte \<noteq> 0, p))"

definition readMultiple :: "TBinaryProtocol \<Rightarrow> int \<Rightarrow> error + (int list \<times> TBinaryProtocol)" where
  "readMultiple p len = from_transport p (transport_read (transport p) len)"

text \<open>
  \<open>readDouble\<close> (lines 677-710). The bits of the eight bytes are pushed from the last
  byte to the first, lowest bit first, and reversed. \<open>byte % 2\<close> is only tested, so the
  sign that JavaScript gives the remainder does not matter.
\<close>

fun byte_bits :: "nat \<Rightarrow> int \<Rightarrow> int list \<Rightarrow> int list" where
  "byte_bits 0 byte bits = bits"
| "byte_bits (Suc j) byte bits =
     byte_bits j (js_sar byte 1) (bits @ [if byte mod 2 \<noteq> 0 then 1 else 0])"

fun bytes_bits :: "nat \<Rightarrow> int list \<Rightarrow> int list \<Rightarrow> int list" where
  "bytes_bits 0 bytes bits = bits"
| "bytes_bits (Suc i) bytes bits = bytes_bits i bytes (byte_bits 8 (bytes ! i) bits)"

definition readDouble :: "TBinaryProtocol \<Rightarrow> error + (double \<times> TBinaryProtocol)" where
  "readDouble p =
     and_then (readMultiple p 8) (\<lambda>(bytes, p).
       (let ebits = 11;
            fbits = 52;
            bits = rev (bytes_bits (length bytes) bytes []);
            str = join_bits bits;
            bias = js_shl 1 (ebits - 1) - 1;
            s = (if parseInt2 (substring str 0 1) \<noteq> 0 then d_of_int (- 1) else d_of_int 1);
            e = parseInt2 (substring str 1 (1 + ebits));
            f = parseInt2 (substring_from str (1 + ebits))
        in if e = js_shl 1 ebits - 1 then
             Inr (if f \<noteq> 0 then NaN else d_mul s (Infinite False), p)
           else if e > 0 then
             Inr (d_mul (d_mul s (d_pow2 (d_of_int (e - bias))))
                    (d_add (d_of_int 1) (d_div (d_of_int f) (d_pow2 (d_of_int fbits)))), p)
           else if f \<noteq> 0 then
             Inr (d_mul (d_mul s (d_pow2 (d_of_int (- (bias - 1)))))
                    (d_div (d_of_int f) (d_pow2 (d_of_int fbits))), p)
           else
             Inr (d_mul s (d_of_int 0), p)))"

definition readString :: "utf8 \<Rightarrow> TBinaryProtocol \<Rightarrow> error + (string \<times> TBinaryProtocol)" where
  "readString utf8 p =
     and_then (readI32 p) (\<lambda>(sz, p).
     and_then (readMultiple p sz) (\<lambda>(bytes, p).
     Inr (decode utf8 bytes, p)))"

definition readBinary :: "TBinaryProtocol \<Rightarrow> error + (int list \<times> TBinaryProtocol)" where
  "readBinary p = and_then (readI32 p) (\<lambda>(sz, p). readMultiple p sz)"

definition readMultipleAsString :: "utf8 \<Rightarrow> TBinaryProtocol \<Rightarrow> int \<Rightarrow> error + (string \<times> TBinaryProtocol)" where
  "readMultipleAsString utf8 p len =
     and_then (readMultiple p len) (\<lambda>(bytes, p). Inr (decode utf8 bytes, p))"

text \<open>
  Line 502 reads
  \<open>if (version & Thrift.TBinaryProtocol.VERSION_MASK !== Thrift.TBinaryProtocol.VERSION_1)\<close>.
  In JavaScript \<open>!==\<close> binds tighter than \<open>&\<close>, so the condition is
  \<open>version & (VERSION_MASK !== VERSION_1)\<close>: the comparison of the two constants gives a
  boolean, \<open>&\<close> converts it to a number, and the \<open>if\<close> tests the result for being nonzero.
\<close>

definition readMessageBegin ::
    "utf8 \<Rightarrow> TBinaryProtocol \<Rightarrow> error + (AnonReadMessageBeginReturn \<times> TBinaryProtocol)" where
  "readMessageBegin utf8 p =
     and_then (readI32 p) (\<lambda>(version, p).
       if version < 0 then
         if js_and version (js_bool (VERSION_MASK \<noteq> VERSION_1)) \<noteq> 0
         then Inl MissingVersionIdentifier
         else
           (let type = js_and version TYPE_MASK in
            and_then (readString utf8 p) (\<lambda>(name, p).
            and_then (readI32 p) (\<lambda>(seqid, p).
            Inr (\<lparr>fname = name, mtype = type, rseqid = seqid\<rparr>, p))))
       else
         if strictRead p then Inl InvalidVersionIdentifier
         else
           and_then (readMultipleAsString utf8 p version) (\<lambda>(name, p).
           and_then (readByte p) (\<lambda>(type, p).
           and_then (readI32 p) (\<lambda>(seqid, p).
           Inr (\<lparr>fname = name, mtype = type, rseqid = seqid\<rparr>, p)))))"

definition readMessageEnd :: "TBinaryProtocol \<Rightarrow> error + (unit \<times> TBinaryProtocol)" where
  "readMessageEnd p = Inr ((), p)"

definition readStructBegin :: "TBinaryProtocol \<Rightarrow> error + (string \<times> TBinaryProtocol)" where
  "readStructBegin p = Inr ([], p)"

definition readStructEnd :: "TBinaryProtocol \<Rightarrow> error + (unit \<times> TBinaryProtocol)" where
  "readStructEnd p = Inr ((), p)"

definition readFieldBegin ::
    "TBinaryProtocol \<Rightarrow> error + (AnonReadFieldBeginReturn \<times> TBinaryProtocol)" where
  "readFieldBegin p =
     and_then (readByte p) (\<lambda>(type, p).
       if type = Type_STOP then Inr (\<lparr>field_fname = [], ftype = type, fid = 0\<rparr>, p)
       else and_then (readI16 p) (\<lambda>(v, p).
              Inr (\<lparr>field_fname = [], ftype = type, fid = v\<rparr>, p)))"

text \<open>
  \<open>readFieldEnd\<close> returns an object whose \<open>value\<close> is the empty string; \<open>readMapEnd\<close>,
  \<open>readListEnd\<close> and \<open>readSetEnd\<close> return that \<open>value\<close>.
\<close>

definition readFieldEnd :: "TBinaryProtocol \<Rightarrow> error + (string \<times> TBinaryProtocol)" where
  "readFieldEnd p = Inr ([], p)"

definition readMapBegin ::
    "TBinaryProtocol \<Rightarrow> error + (AnonReadMapBeginReturn \<times> TBinaryProtocol)" where
  "readMapBegin p =
     and_then (readByte p) (\<lambda>(k, p).
     and_then (readByte p) (\<lambda>(v, p).
     and_then (readI32 p) (\<lambda>(n, p).
     Inr (\<lparr>ktype = k, vtype = v, map_size = n\<rparr>, p))))"

definition readMapEnd :: "TBinaryProtocol \<Rightarrow> error + (string \<times> TBinaryProtocol)" where
  "readMapEnd p = readFieldEnd p"

definition readListBegin ::
    "TBinaryProtocol \<Rightarrow> error + (AnonReadColBeginReturn \<times> TBinaryProtocol)" where
  "readListBegin p =
     and_then (readByte p) (\<lambda>(e, p).
     and_then (readI32 p) (\<lambda>(n, p).
     Inr (\<lparr>etype = e, col_size = n\<rparr>, p)))"

definition readListEnd :: "TBinaryProtocol \<Rightarrow> error + (string \<times> TBinaryProtocol)" where
  "readListEnd p = readFieldEnd p"

definition readSetBegin ::
    "TBinaryProtocol \<Rightarrow> error + (AnonReadColBeginReturn \<times> TBinaryProtocol)" where
  "readSetBegin p =
     and_then (readByte p) (\<lambda>(e, p).
     and_then (readI32 p) (\<lambda>(n, p).
     Inr (\<lparr>etype = e, col_size = n\<rparr>, p)))"

definition readSetEnd :: "TBinaryProtocol \<Rightarrow> error + (string \<times> TBinaryProtocol)" where
  "readSetEnd p = readFieldEnd p"

section \<open>Skip traversal (part_000, lines 740-799)\<close>

text \<open>
  Lines 774-778, run before every map entry but the first:
  \<open>if (this.rstack.length > this.rpos[this.rpos.length - 1] + 1) { this.rstack.pop(); }\<close>.
  Reading \<open>length\<close> of \<open>this.rpos\<close> when \<open>this.rpos\<close> is \<open>undefined\<close> throws a
  \<open>TypeError\<close>. With an array in \<open>rpos\<close>, an empty one gives \<open>undefined + 1\<close>, which is
  \<open>NaN\<close>, and the comparison is false.
\<close>

definition rstack_check :: "TBinaryProtocol \<Rightarrow> error + TBinaryProtocol" where
  "rstack_check p =
     (case rpos p of
        None \<Rightarrow> Inl TypeError
      | Some rp \<Rightarrow>
          if rp \<noteq> [] \<and> int (length (rstack p)) > last rp + 1
          then Inr (p\<lparr>rstack := butlast (rstack p)\<rparr>)
          else Inr p)"

text \<open>
  \<open>skip\<close> calls itself for every field, key, value and element, and its loops run as long
  as the input says. The model counts calls and loop rounds down from \<open>fuel\<close>; \<open>None\<close>
  means that the fuel ran out, \<open>Some (Inl e)\<close> that the code threw \<open>e\<close>, and
  \<open>Some (Inr p)\<close> that it returned with the protocol object in state \<open>p\<close>. The value
  that \<open>skip\<close> returns is used by none of its callers and is left out.
\<close>

definition discard :: "error + ('a \<times> TBinaryProtocol) \<Rightarrow> error + TBinaryProtocol" where
  "discard r = and_then r (\<lambda>(x, p). Inr p)"

definition after_read ::
    "error + ('a \<times> TBinaryProtocol) \<Rightarrow> ('a \<Rightarrow> TBinaryProtocol \<Rightarrow> (error + TBinaryProtocol) option)
      \<Rightarrow> (error + TBinaryProtocol) option" where
  "after_read r f = (case r of Inl e \<Rightarrow> Some (Inl e) | Inr (x, p) \<Rightarrow> f x p)"

definition after_skip ::
    "(error + TBinaryProtocol) option \<Rightarrow> (TBinaryProtocol \<Rightarrow> (error + TBinaryProtocol) option)
      \<Rightarrow> (error + TBinaryProtocol) option" where
  "after_skip r f = (case r of None \<Rightarrow> None | Some (Inl e) \<Rightarrow> Some (Inl e) | Some (Inr p) \<Rightarrow> f p)"

fun skip :: "nat \<Rightarrow> utf8 \<Rightarrow> TBinaryProtocol \<Rightarrow> int \<Rightarrow> (error + TBinaryProtocol) option"
  and skip_struct_loop :: "nat \<Rightarrow> utf8 \<Rightarrow> TBinaryProtocol \<Rightarrow> (error + TBinaryProtocol) option"
  and skip_map_loop ::
    "nat \<Rightarrow> utf8 \<Rightarrow> TBinaryProtocol \<Rightarrow> AnonReadMapBeginReturn \<Rightarrow> int \<Rightarrow> (error + TBinaryProtocol) option"
  and skip_col_loop ::
    "nat \<Rightarrow> utf8 \<Rightarrow> TBinaryProtocol \<Rightarrow> AnonReadColBeginReturn \<Rightarrow> int \<Rightarrow> (error + TBinaryProtocol) option"
where
  "skip 0 utf8 p type = None"
| "skip (Suc fuel) utf8 p type =
     (if type = Type_STOP then Some (Inr p)
      else if type = Type_BOOL then Some (discard (readBool p))
      else if type = Type_BYTE then Some (discard (readByte p))
      else if type = Type_I16 then Some (discard (readI16 p))
      else if type = Type_I32 then Some (discard (readI32 p))
      else if type = Type_I64 then Some (discard (readI64 p))
      else if type = Type_DOUBLE then Some (discard (readDouble p))
      else if type = Type_STRING then Some (discard (readString utf8 p))
      else if type = Type_STRUCT then
        after_read (readStructBegin p) (\<lambda>ret p.
        after_skip (skip_struct_loop fuel utf8 p) (\<lambda>p.
        Some (discard (readStructEnd p))))
      else if type = Type_MAP then
        after_read (readMapBegin p) (\<lambda>ret p.
        after_skip (skip_map_loop fuel utf8 p ret 0) (\<lambda>p.
        Some (discard (readMapEnd p))))
      else if type = Type_SET then
        after_read (readSetBegin p) (\<lambda>ret p.
        after_skip (skip_col_loop fuel utf8 p ret 0) (\<lambda>p.
        Some (discard (readSetEnd p))))
      else if type = Type_LIST then
        after_read (readListBegin p) (\<lambda>ret p.
        after_skip (skip_col_loop fuel utf8 p ret 0) (\<lambda>p.
        Some (discard (readListEnd p))))
      else Some (Inr p))"
| "skip_struct_loop 0 utf8 p = None"
| "skip_struct_loop (Suc fuel) utf8 p =
     after_read (readFieldBegin p) (\<lambda>ret p.
       if ftype ret = Type_STOP then Some (Inr p)
       else
         after_skip (skip fuel utf8 p (ftype ret)) (\<lambda>p.
         after_read (readFieldEnd p) (\<lambda>v p.
         skip_struct_loop fuel utf8 p)))"
| "skip_map_loop 0 utf8 p ret i = None"
| "skip_map_loop (Suc fuel) utf8 p ret i =
     (if i < map_size ret then
        after_skip (if i > 0 then Some (rstack_check p) else Some (Inr p)) (\<lambda>p.
        after_skip (skip fuel utf8 p (ktype ret)) (\<lambda>p.
        after_skip (skip fuel utf8 p (vtype ret)) (\<lambda>p.
        skip_map_loop fuel utf8 p ret (i + 1))))
      else Some (Inr p))"
| "skip_col_loop 0 utf8 p ret i = None"
| "skip_col_loop (Suc fuel) utf8 p ret i =
     (if i < col_size ret then
        after_skip (skip fuel utf8 p (etype ret)) (\<lambda>p.
        skip_col_loop fuel utf8 p ret (i + 1))
      else Some (Inr p))"

section \<open>The older variant: \<open>writeI16\<close> and \<open>readI16\<close> of binary.js (lines 210-216, 460)\<close>

text \<open>
  \<open>writeI16\<close> of binary.js checks \<open>i16 < Math.pow(2, 15) * -1 || i16 >= Math.pow(2, 16)\<close>
  and writes \<open>255 & i16 >> 8\<close> and \<open>255 & i16\<close>; \<open>>>\<close> binds tighter than \<open>&\<close>.
\<close>

definition binary_writeI16 :: "TBinaryProtocol \<Rightarrow> int \<Rightarrow> error + TBinaryProtocol" where
  "binary_writeI16 p i16 =
     (if i16 < 2 ^ 15 * - 1 \<or> i16 \<ge> 2 ^ 16 then Inl OutOfRange
      else
        and_then (on_transport p (transport_writeByte (transport p) (js_and 255 (js_sar i16 8))))
          (\<lambda>p. on_transport p (transport_writeByte (transport p) (js_and 255 i16))))"

text \<open>
  \<open>return {value: ((this.readByte().value & 255) << 8 | this.readByte().value & 255)};\<close>
  where \<open>readByte\<close> is the same function as in part_000. \<open><<\<close> binds tighter than \<open>&\<close>,
  and \<open>&\<close> tighter than \<open>|\<close>.
\<close>

definition binary_readI16 :: "TBinaryProtocol \<Rightarrow> error + (int \<times> TBinaryProtocol)" where
  "binary_readI16 p =
     and_then (readByte p) (\<lambda>(a, p).
     and_then (readByte p) (\<lambda>(b, p).
     Inr (js_or (js_shl (js_and a 255) 8) (js_and b 255), p)))"

section \<open>Sample sessions\<close>

text \<open>A protocol object over a channel that has \<open>bytes\<close> to read and nothing written.\<close>

definition session :: "bool \<Rightarrow> bool \<Rightarrow> int list \<Rightarrow> TBinaryProtocol" where
  "session sr sw bytes = new_TBinaryProtocol \<lparr>rbuf = bytes, wbuf = []\<rparr> (Some sr) (Some sw)"

text \<open>
  The writer calls for a struct with one field, number 1, that holds a map from byte to
  byte with the two entries \<open>1 \<mapsto> 2\<close> and \<open>3 \<mapsto> 4\<close>.
\<close>

definition write_map_struct :: "TBinaryProtocol \<Rightarrow> error + TBinaryProtocol" where
  "write_map_struct p =
     and_then (writeStructBegin p ''S'') (\<lambda>p.
     and_then (writeFieldBegin p ''m'' Type_MAP 1) (\<lambda>p.
     and_then (writeMapBegin p Type_BYTE Type_BYTE 2) (\<lambda>p.
     and_then (writeByte p 1) (\<lambda>p.
     and_then (writeByte p 2) (\<lambda>p.
     and_then (writeByte p 3) (\<lambda>p.
     and_then (writeByte p 4) (\<lambda>p.
     and_then (writeMapEnd p) (\<lambda>p.
     and_then (writeFieldEnd p) (\<lambda>p.
     and_then (writeFieldStop p) (\<lambda>p.
     writeStructEnd p))))))))))"

text \<open>
  The double \<open>1e-300\<close>: \<open>6032057205060441 * 2 ^ - 1049\<close> is the double nearest to
  \<open>10 ^ - 300\<close>, a normal number (it is above \<open>2 ^ - 1022\<close>). Its natural logarithm is
  \<open>- 690.7755278982137...\<close>, and \<open>log_tiny\<close> is the double nearest to it,
  \<open>- 6076125800857525 * 2 ^ - 43\<close>.
\<close>

definition tiny :: double where
  "tiny = Finite False 6032057205060441 (- 1049)"

definition log_tiny :: double where
  "log_tiny = Finite True 6076125800857525 (- 43)"

section \<open>Auxiliary definitions for the proofs\<close>



declare hexstr.simps [simp del] bitlen.simps [simp del]

declare write_bit_string.simps [simp del]

lemmas js_defs = toInt32_def js_and_def js_or_def js_xor_def js_shl_def js_sar_def js_bool_def

lemmas pack_defs = pack16_def p16_def unpack16_def u16_def pack32_def p32_def unpack32_def u32_def
  pack64_def unpack64_def int16min_def int16max_def int32min_def int32max_def int64min_def
  int64max_def

lemmas hex_defs = p64_def u64_def paddedHex_def toString16_def substring_from_def substring_def
  parseInt16_def hexval_def hexdigit_def toDouble_def hexstr.simps

lemmas channel_defs = transport_writeByte_def transport_write_def transport_readByte_def
  transport_read_def on_transport_def from_transport_def and_then_def session_def
  new_TBinaryProtocol_def

lemmas writer_defs = writeByte_def writeI16_def writeI32_def writeString_def writeMessageBegin_def
  writeStructBegin_def writeStructEnd_def writeFieldBegin_def writeFieldEnd_def writeFieldStop_def
  writeMapBegin_def writeMapEnd_def

lemmas reader_defs = readByte_def readI16_def readI32_def readString_def readMultiple_def
  readMessageBegin_def readMultipleAsString_def readBool_def readFieldBegin_def readFieldEnd_def
  readMapBegin_def readMapEnd_def readStructBegin_def readStructEnd_def

lemmas type_defs = Type_STOP_def Type_BOOL_def Type_BYTE_def Type_DOUBLE_def Type_I16_def
  Type_I32_def Type_I64_def Type_STRING_def Type_STRUCT_def Type_MAP_def Type_SET_def Type_LIST_def

lemmas skip_defs = after_read_def after_skip_def discard_def rstack_check_def rpos_def

section \<open>The 16-bit and 32-bit packers\<close>

lemma toInt32_id: "- (2 ^ 31) \<le> x \<Longrightarrow> x < 2 ^ 31 \<Longrightarrow> toInt32 x = x"
  unfolding toInt32_def by (rule signed_take_bit_int_eq_self) simp_all

lemma js_and_255: "js_and x 255 = take_bit 8 (toInt32 x)"
  using take_bit_eq_mask [of 8 "toInt32 x"]
  by (simp add: mask_eq_exp_minus_1 js_and_def toInt32_def)

lemma js_and_128: "js_and x 128 \<noteq> 0 \<longleftrightarrow> bit (toInt32 x) 7"
  using and_exp_eq_0_iff_not_bit [of "toInt32 x" 7] by (simp add: js_and_def toInt32_def)

lemma js_xor_255: "js_xor x 255 = toInt32 x XOR mask 8"
  by (simp add: js_xor_def toInt32_def mask_eq_exp_minus_1)

text \<open>Reassembling the four bytes of \<open>p32\<close> gives back the 32-bit value, bit by bit.\<close>

lemma u32_p32_toInt32: "u32 (p32 v) = toInt32 v"
  unfolding u32_def p32_def Let_def js_and_255 js_or_def js_shl_def js_sar_def
  apply (simp add: toInt32_def)
  apply (rule bit_eqI)
  apply (auto simp: bit_simps)
  subgoal for n by (cases "16 \<le> n") auto
  subgoal for n by (cases "24 \<le> min 31 n"; cases "16 \<le> min 31 n") auto
  done

lemma u32_p32: "- (2 ^ 31) \<le> x \<Longrightarrow> x < 2 ^ 31 \<Longrightarrow> u32 (p32 x) = x"
  by (simp add: u32_p32_toInt32 toInt32_id)

text \<open>
  For \<open>u16\<close> the sign bit decides the branch. In the negative branch the result is
  \<open>- v - 1\<close>, the complement of the complemented bytes.
\<close>

lemma u16_p16_sign: "u16 (p16 (signed_take_bit 15 v)) = signed_take_bit 15 v"
proof (cases "bit v 15")
  case True
  have "u16 (p16 (signed_take_bit 15 v)) = NOT (NOT (signed_take_bit 15 v))"
    unfolding u16_def p16_def Let_def js_and_128 js_xor_255 js_and_255 js_or_def js_shl_def js_sar_def
    unfolding not_int_def [of "NOT (signed_take_bit 15 v)"]
    using True
    apply (simp add: toInt32_def bit_simps)
    apply (rule bit_eqI)
    apply (auto simp: bit_simps)
    done
  then show ?thesis by simp
next
  case False
  show ?thesis
    unfolding u16_def p16_def Let_def js_and_128 js_xor_255 js_and_255 js_or_def js_shl_def js_sar_def
    using False
    apply (simp add: toInt32_def bit_simps)
    apply (rule bit_eqI)
    subgoal for n
      by (cases "n < 8"; cases "n < 15") (auto simp: bit_simps min_def)
    done
qed

lemma u16_p16: "- (2 ^ 15) \<le> x \<Longrightarrow> x < 2 ^ 15 \<Longrightarrow> u16 (p16 x) = x"
  using u16_p16_sign [of x] signed_take_bit_int_eq_self [of 15 x] by simp


lemma length_p32: "length (p32 v) = 4"
  by (simp add: p32_def Let_def)

section \<open>The 64-bit packer: hexadecimal strings\<close>


















text \<open>
  The sixteen characters of \<open>paddedHex _ 16\<close> are cut into eight pairs by the loop of \<open>p64\<close>,
  and \<open>u64\<close> prints each byte back as the same pair.
\<close>

lemma js_xor_byte:
  assumes "0 \<le> b" "b < 256" shows "js_xor b 255 = 255 - b"
proof -
  have tb: "take_bit 8 b = b" using assms by (simp add: take_bit_int_eq_self)
  have "b XOR 255 = take_bit 8 b XOR mask 8" by (simp add: tb mask_eq_exp_minus_1)
  also have "\<dots> = take_bit 8 (NOT b)"
    by (rule bit_eqI) (auto simp: bit_simps)
  also have "\<dots> = 255 - b"
    by (simp add: take_bit_not_eq_mask_diff tb mask_eq_exp_minus_1)
  finally show ?thesis using assms by (simp add: js_xor_def toInt32_id)
qed

lemma p64_loop_numeral:
  "p64_loop (numeral k) hs flip result =
     p64_loop (pred_numeral k) hs flip
       (result @ [if flip then js_xor (parseInt16 (substring hs (int (numeral k) * 2 - 2) (int (numeral k) * 2))) 255
                  else parseInt16 (substring hs (int (numeral k) * 2 - 2) (int (numeral k) * 2))])"
  unfolding numeral_eq_Suc [of k] by (simp add: Let_def)



















section \<open>Frame writer and frame reader\<close>

text \<open>What a successful write leaves in the channel.\<close>

lemma forEach_writeByte_wbuf:
  "forEach_writeByte p bytes = Inr (p\<lparr>transport := (transport p)\<lparr>wbuf := wbuf (transport p) @ bytes\<rparr>\<rparr>)"
  by (induction bytes arbitrary: p)
     (simp_all add: on_transport_def transport_writeByte_def and_then_def)

lemma writeI32_Inr:
  assumes "writeI32 p v = Inr p'"
  shows "v < 2 ^ 31" and "wbuf (transport p') = wbuf (transport p) @ p32 v"
  using assms
  by (auto simp: writeI32_def pack32_def and_then_def forEach_writeByte_wbuf int32max_def
      split: if_splits)

lemma writeByte_Inr:
  "writeByte p b = Inr p' \<Longrightarrow> wbuf (transport p') = wbuf (transport p) @ [b]"
  by (auto simp: writeByte_def on_transport_def transport_writeByte_def and_then_def split: if_splits)

lemma writeString_Inr:
  assumes "writeString utf8 p str = Inr p'"
  shows "int (length (encode utf8 str)) < 2 ^ 31"
    and "wbuf (transport p') = wbuf (transport p) @ p32 (int (length (encode utf8 str))) @ encode utf8 str"
proof -
  from assms obtain q where q: "writeI32 p (int (length (encode utf8 str))) = Inr q"
    and p': "on_transport q (transport_write (transport q) (encode utf8 str)) = Inr p'"
    by (auto simp: writeString_def Let_def and_then_def split: sum.splits)
  from writeI32_Inr(1) [OF q] show "int (length (encode utf8 str)) < 2 ^ 31" .
  from p' have "wbuf (transport p') = wbuf (transport q) @ encode utf8 str"
    by (auto simp: on_transport_def transport_write_def and_then_def)
  with writeI32_Inr(2) [OF q]
  show "wbuf (transport p') = wbuf (transport p) @ p32 (int (length (encode utf8 str))) @ encode utf8 str"
    by simp
qed

text \<open>Reading back what \<open>p32\<close> produced.\<close>

lemma readByte_loop_append:
  "rbuf t = bs @ rest \<Longrightarrow> readByte_loop (length bs) t packed = Inr (packed @ bs, t\<lparr>rbuf := rest\<rparr>)"
proof (induction bs arbitrary: t packed)
  case Nil
  then show ?case by simp
next
  case (Cons b bs)
  then show ?case by (simp add: transport_readByte_def and_then_def)
qed

lemma readI32_p32:
  assumes "rbuf (transport p) = p32 v @ rest" "- (2 ^ 31) \<le> v" "v < 2 ^ 31"
  shows "readI32 p = Inr (v, p\<lparr>transport := (transport p)\<lparr>rbuf := rest\<rparr>\<rparr>)"
proof -
  have "readByte_loop (length (p32 v)) (transport p) [] = Inr ([] @ p32 v, (transport p)\<lparr>rbuf := rest\<rparr>)"
    using assms(1) by (rule readByte_loop_append)
  then have "readByte_loop 4 (transport p) [] = Inr (p32 v, (transport p)\<lparr>rbuf := rest\<rparr>)"
    by (simp add: length_p32)
  then show ?thesis
    using assms(2,3)
    by (simp add: readI32_def from_transport_def and_then_def unpack32_def length_p32 u32_p32)
qed

text \<open>
  The version check of \<open>readMessageBegin\<close> as the code evaluates it: on a negative header
  it throws exactly when the header is odd, whatever its high 16 bits are.
\<close>

lemma version_check_odd: "js_and version (js_bool (VERSION_MASK \<noteq> VERSION_1)) \<noteq> 0 \<longleftrightarrow> odd version"
proof -
  have "toInt32 version AND 1 = of_bool (odd (toInt32 version))"
    by (simp add: and_one_eq mod_2_eq_odd)
  moreover have "odd (toInt32 version) \<longleftrightarrow> odd version"
    using bit_signed_take_bit_iff [of 31 version 0] by (simp add: toInt32_def bit_0)
  ultimately show ?thesis
    by (simp add: js_and_def js_bool_def VERSION_MASK_def VERSION_1_def toInt32_def)
qed

lemma readMessageBegin_versioned:
  assumes "readI32 p = Inr (version, q)" and "version < 0"
  shows "readMessageBegin utf8 p =
     (if odd version then Inl MissingVersionIdentifier
      else and_then (readString utf8 q) (\<lambda>(name, q).
           and_then (readI32 q) (\<lambda>(seqid, q).
           Inr (\<lparr>fname = name, mtype = js_and version 255, rseqid = seqid\<rparr>, q))))"
  using assms
  by (simp add: readMessageBegin_def and_then_def version_check_odd TYPE_MASK_def
      del: One_nat_def)

text \<open>
  The two variants of \<open>readI16\<close> on two bytes of the channel: the older one returns the
  unsigned 16-bit number, the newer one the signed number.
\<close>

lemma readByte_and_255:
  assumes "0 \<le> a" "a < 256"
  shows "js_and (if a > 127 then 0 - js_xor (a - 1) 255 else a) 255 = a"
proof (cases "a > 127")
  case True
  then have "js_xor (a - 1) 255 = 255 - (a - 1)" using assms by (intro js_xor_byte) simp_all
  then have "js_and (if a > 127 then 0 - js_xor (a - 1) 255 else a) 255 = take_bit 8 (toInt32 (a - 256))"
    using True by (simp add: js_and_255)
  also have "\<dots> = take_bit 8 (a - 256)" using assms by (simp add: toInt32_id)
  also have "\<dots> = a" using assms by (simp add: take_bit_eq_mod)
  finally show ?thesis .
next
  case False
  then show ?thesis using assms by (simp add: js_and_255 toInt32_id take_bit_eq_mod)
qed

lemma binary_value:
  assumes "0 \<le> a" "a < 256" "0 \<le> b" "b < 256"
  shows "js_or (js_shl a 8) b = 256 * a + b"
proof -
  have tb: "take_bit 8 b = b" using assms by (simp add: take_bit_int_eq_self)
  have "js_shl a 8 = push_bit 8 a"
    using assms by (simp add: js_shl_def toInt32_id push_bit_eq_mult)
  moreover have "toInt32 (push_bit 8 a) = push_bit 8 a"
    using assms by (intro toInt32_id) (simp_all add: push_bit_eq_mult)
  moreover have "toInt32 b = b" using assms by (intro toInt32_id) simp_all
  ultimately have "js_or (js_shl a 8) b = take_bit 8 b OR push_bit 8 a"
    by (simp add: js_or_def tb or.commute)
  also have "\<dots> = take_bit 8 b + push_bit 8 a"
    using concat_bit_eq [of 8 b a] by (simp add: concat_bit_def)
  finally show ?thesis by (simp add: tb push_bit_eq_mult)
qed

lemma divmod256:
  fixes k b :: int
  assumes "0 \<le> b" "b < 256"
  shows "(256 * k + b) div 256 = k" and "(256 * k + b) mod 256 = b"
  using assms by simp_all

lemma p16_bytes:
  assumes "0 \<le> a" "a < 256" "0 \<le> b" "b < 256" and "- (2 ^ 15) \<le> 256 * k + b" "256 * k + b < 2 ^ 15"
    and "k mod 256 = a"
  shows "p16 (256 * k + b) = [a, b]"
  using assms divmod256 [OF assms(3,4), of k]
  by (simp add: p16_def Let_def js_and_255 js_sar_def toInt32_id take_bit_eq_mod drop_bit_eq_div)

lemma u16_bytes:
  assumes "0 \<le> a" "a < 256" "0 \<le> b" "b < 256"
  shows "u16 [a, b] = (if a < 128 then 256 * a + b else 256 * a + b - 65536)"
proof (cases "a < 128")
  case True
  have r: "- (2 ^ 15) \<le> 256 * a + b" "256 * a + b < 2 ^ 15" using assms True by simp_all
  have "p16 (256 * a + b) = [a, b]"
    using assms r by (intro p16_bytes) simp_all
  then show ?thesis using u16_p16 [OF r] True by simp
next
  case False
  have r: "- (2 ^ 15) \<le> 256 * (a - 256) + b" "256 * (a - 256) + b < 2 ^ 15"
    using assms False by simp_all
  have "(a - 256) mod 256 = a" using assms by simp
  then have "p16 (256 * (a - 256) + b) = [a, b]"
    using assms r by (intro p16_bytes) simp_all
  then have "u16 [a, b] = 256 * (a - 256) + b" using u16_p16 [OF r] by simp
  then show ?thesis using False by simp
qed

lemma binary_readI16_vs_readI16:
  assumes "rbuf (transport p) = a # b # rest" and "0 \<le> a" "a < 256" "0 \<le> b" "b < 256"
  shows "readI16 p = Inr (if a < 128 then 256 * a + b else 256 * a + b - 65536,
           p\<lparr>transport := (transport p)\<lparr>rbuf := rest\<rparr>\<rparr>)"
    and "binary_readI16 p = Inr (256 * a + b, p\<lparr>transport := (transport p)\<lparr>rbuf := rest\<rparr>\<rparr>)"
proof -
  have "readByte_loop 2 (transport p) [] = Inr ([a, b], (transport p)\<lparr>rbuf := rest\<rparr>)"
    using assms(1) readByte_loop_append [of "transport p" "[a, b]" rest "[]"]
    by (simp add: numeral_2_eq_2)
  then show "readI16 p = Inr (if a < 128 then 256 * a + b else 256 * a + b - 65536,
           p\<lparr>transport := (transport p)\<lparr>rbuf := rest\<rparr>\<rparr>)"
    using u16_bytes [OF assms(2-5)]
    by (simp add: readI16_def from_transport_def and_then_def unpack16_def)
next
  show "binary_readI16 p = Inr (256 * a + b, p\<lparr>transport := (transport p)\<lparr>rbuf := rest\<rparr>\<rparr>)"
    using assms(1) readByte_and_255 [OF assms(2,3)] readByte_and_255 [OF assms(4,5)]
      binary_value [OF assms(2-5)]
    by (simp add: binary_readI16_def readByte_def from_transport_def transport_readByte_def
        and_then_def)
qed

section \<open>The range check of \<open>writeByte\<close> and the map loop of \<open>skip\<close>\<close>

text \<open>
  \<open>writeByte\<close> accepts every integer strictly between \<open>- 2 ^ 31\<close> and \<open>2 ^ 31\<close>.
\<close>

lemma writeByte_accepts:
  "- (2 ^ 31) < v \<Longrightarrow> v < 2 ^ 31 \<Longrightarrow>
   writeByte p v = Inr (p\<lparr>transport := (transport p)\<lparr>wbuf := wbuf (transport p) @ [v]\<rparr>\<rparr>)"
  by (simp add: writeByte_def on_transport_def transport_writeByte_def and_then_def)

text \<open>
  The loop of \<open>skip\<close> over the entries of a map never comes to its end when the map has
  two entries or more: the second round starts with the read of \<open>this.rpos\<close>.
\<close>

lemma skip_map_loop_second_round:
  "1 < map_size ret \<Longrightarrow> skip_map_loop fuel utf8 p ret 1 \<noteq> Some (Inr q)"
  by (cases fuel) (simp_all add: after_skip_def rstack_check_def rpos_def)

lemma skip_map_loop_two_entries:
  assumes "2 \<le> map_size ret"
  shows "skip_map_loop fuel utf8 p ret 0 \<noteq> Some (Inr q)"
proof (cases fuel)
  case 0
  then show ?thesis by simp
next
  case (Suc f)
  have second: "\<And>p'. skip_map_loop f utf8 p' ret 1 \<noteq> Some (Inr q)"
    using assms by (intro skip_map_loop_second_round) simp
  show ?thesis
    using assms second unfolding Suc
    by (auto simp: after_skip_def split: option.splits sum.splits)
qed

section \<open>Doubles: \<open>writeDouble\<close> and \<open>readDouble\<close> on \<open>1e-300\<close>\<close>

lemma bitlen_0: "bitlen 0 = 0"
  by (simp add: bitlen.simps)

lemma bitlen_1: "bitlen (Suc 0) = Suc 0"
  by (simp add: bitlen.simps)

lemma bitlen_numeral: "bitlen (numeral k) = Suc (bitlen (numeral k div 2))"
  by (subst bitlen.simps) simp

lemma bitlen_eq: "2 ^ k \<le> n \<Longrightarrow> n < 2 ^ Suc k \<Longrightarrow> bitlen n = Suc k"
proof (induction k arbitrary: n)
  case 0
  then have "n = 1" by simp
  then show ?case by (simp add: bitlen_1)
next
  case (Suc k)
  have "2 ^ k \<le> n div 2" using Suc.prems(1) by simp
  moreover have "n div 2 < 2 ^ Suc k" using Suc.prems(2) by simp
  ultimately have "bitlen (n div 2) = Suc k" by (rule Suc.IH)
  moreover have "0 < (2 :: nat) ^ Suc k" by simp
  then have "n \<noteq> 0" using Suc.prems(1) by linarith
  ultimately show ?case by (subst bitlen.simps) simp
qed

lemmas double_defs = round_double_def d_of_int_def signed_def d_sub_def d_ge_def d_gt_def d_min_def
  Math_LN2_def bitlen_0 bitlen_1 bitlen_numeral

lemmas bit_string_defs = parseInt2_def binval_def join_bits_def substring_def substring_from_def
  toDouble_def

lemma push_bits_numeral:
  "push_bits (numeral k) x bits =
     push_bits (pred_numeral k) (d_floor (d_div x (d_of_int 2)))
       (bits @ [if truthy (d_rem x (d_of_int 2)) then 1 else 0])"
  unfolding numeral_eq_Suc [of k] by simp

lemma byte_bits_numeral:
  "byte_bits (numeral k) byte bits =
     byte_bits (pred_numeral k) (js_sar byte 1) (bits @ [if byte mod 2 \<noteq> 0 then 1 else 0])"
  unfolding numeral_eq_Suc [of k] by simp

lemma write_bit_string_Cons8:
  "write_bit_string p (c0 # c1 # c2 # c3 # c4 # c5 # c6 # c7 # rest) =
     and_then
       (on_transport p
          (transport_writeByte (transport p) (parseInt2 [c0, c1, c2, c3, c4, c5, c6, c7])))
       (\<lambda>p. write_bit_string p rest)"
  by (subst write_bit_string.simps) (simp add: substring_def substring_from_def)

lemma write_bit_string_Nil: "write_bit_string p [] = Inr p"
  by (subst write_bit_string.simps) simp

lemma d_of_int_2: "d_of_int 2 = Finite False 4503599627370496 (- 51)"
  by (simp add: double_defs)

text \<open>
  \<open>tiny\<close> is the double nearest to \<open>10 ^ - 300\<close>: with \<open>m\<close> its significand,
  \<open>(m - 1/2) * 2 ^ - 1049 < 10 ^ - 300 < (m + 1/2) * 2 ^ - 1049\<close>. It is a normal number.
\<close>

lemma tiny_nearest:
  "(case tiny of
      Finite s m e \<Rightarrow>
        \<not> s \<and> e = - 1049 \<and> (2 * m - 1) * 10 ^ 300 < 2 ^ 1050 \<and> 2 ^ 1050 < (2 * m + 1) * 10 ^ 300
    | Infinite s \<Rightarrow> False
    | NaN \<Rightarrow> False)"
  by (simp add: tiny_def)

lemma tiny_normal: "d_ge tiny (d_pow2 (d_of_int (- 1022)))"
  by (simp add: tiny_def double_defs)

text \<open>
  With a logarithm that is correctly rounded, \<open>Math.floor(Math.log(dub) / Math.LN2)\<close> is
  \<open>- 997\<close> for \<open>dub = 1e-300\<close>; it is the exponent of \<open>1e-300\<close>, which lies between
  \<open>2 ^ - 997\<close> and \<open>2 ^ - 996\<close>.
\<close>

lemma floor_tiny: "d_floor (d_div log_tiny Math_LN2) = d_of_int (- 997)"
  by (simp add: log_tiny_def double_defs)

text \<open>
  The same holds for every logarithm between \<open>- 691\<close> and \<open>- 690.5\<close>, the doubles
  \<open>- m * 2 ^ - 43\<close> with \<open>690.5 * 2 ^ 43 \<le> m \<le> 691 * 2 ^ 43\<close>: the quotient by \<open>Math.LN2\<close>
  then lies between \<open>- 997\<close> and \<open>- 996\<close>, and so does the double it is rounded to.
\<close>

lemma floor_log_range:
  assumes lo: "6073702231834624 \<le> m" and hi: "m \<le> 6078100278345728"
  shows "d_floor (d_div (Finite True m (- 43)) Math_LN2) = d_of_int (- 997)"
proof -
  define n where "n = (m * 2 ^ 117) div 6243314768165359"
  define N where "N = 2 * n + (if (m * 2 ^ 117) mod 6243314768165359 = 0 then 0 else 1)"
  have "(6073702231834624 * 2 ^ 117) div 6243314768165359 \<le> n"
    unfolding n_def using lo by (intro zdiv_mono1) simp_all
  then have n_lo: "161639596600627441401071006181239799 \<le> n" by simp
  have "n \<le> (6078100278345728 * 2 ^ 117) div 6243314768165359"
    unfolding n_def using hi by (intro zdiv_mono1) simp_all
  then have n_hi: "n \<le> 161756641927637309208023266142268937" by simp
  have N_lo: "2 * 161639596600627441401071006181239799 \<le> N" using n_lo by (simp add: N_def)
  have N_hi: "N \<le> 2 * 161756641927637309208023266142268937 + 1" using n_hi by (simp add: N_def)
  have "bitlen (nat N) = Suc 117"
    using N_lo N_hi by (intro bitlen_eq) (simp_all add: nat_le_iff nat_less_iff le_nat_iff)
  then have bl: "bitlen (nat N) = 118" by simp
  have blM: "bitlen 6243314768165359 = 53" by (simp add: bitlen_0 bitlen_1 bitlen_numeral)
  have dv: "d_div (Finite True m (- 43)) Math_LN2 = round_double True N (- 108)"
    by (simp add: Math_LN2_def blM N_def n_def Let_def)
  define d where "d = N div 2 ^ 65"
  define q where "q = (if 2 * (N mod 2 ^ 65) > 2 ^ 65 \<or> (2 * (N mod 2 ^ 65) = 2 ^ 65 \<and> odd d)
                       then d + 1 else d)"
  have "(2 * 161639596600627441401071006181239799) div 2 ^ 65 \<le> d"
    unfolding d_def using N_lo by (intro zdiv_mono1) simp_all
  then have d_lo: "8762500089704040 \<le> d" by simp
  have "d \<le> (2 * 161756641927637309208023266142268937 + 1) div 2 ^ 65"
    unfolding d_def using N_hi by (intro zdiv_mono1) simp_all
  then have d_hi: "d \<le> 8768845129595210" by simp
  have q_lo: "8762500089704040 \<le> q" and q_hi: "q \<le> 8768845129595211"
    using d_lo d_hi by (simp_all add: q_def)
  have N0: "N \<noteq> 0" using N_lo by simp
  have "round_double True N (- 108) =
          (if q = 2 ^ 53 then Finite True (2 ^ 52) (- 42) else Finite True q (- 43))"
    using N0 by (simp add: round_double_def bl Let_def q_def d_def)
  moreover have "q \<noteq> 2 ^ 53" using q_hi by simp
  ultimately have rd: "round_double True N (- 108) = Finite True q (- 43)" by simp
  have "(- q) div 2 ^ 43 = - 997"
    using q_lo q_hi by (intro int_div_pos_eq [where r = "8769704743141376 - q"]) simp_all
  then show ?thesis
    unfolding dv rd using q_lo by (simp add: signed_def)
qed

lemma tiny_exponent:
  "d_ge tiny (d_pow2 (d_of_int (- 997))) \<and> d_lt tiny (d_pow2 (d_of_int (- 996)))"
  by (simp add: tiny_def double_defs)

text \<open>
  The step that goes wrong: \<open>Math.pow(2, fbits - ln)\<close> is \<open>Math.pow(2, 1049)\<close>, above the
  greatest double, so it is \<open>Infinity\<close>, and \<open>f\<close> is \<open>Infinity\<close> too; every \<open>f % 2\<close> is then
  \<open>NaN\<close>, and the 52 fraction bits are 0.
\<close>

lemma pow2_overflow: "d_pow2 (d_sub (d_of_int 52) (d_of_int (- 997))) = Infinite False"
  by (simp add: double_defs)

lemma fraction_tiny:
  "d_sub (d_mul tiny (d_pow2 (d_sub (d_of_int 52) (d_min (d_of_int (- 997)) (d_of_int 1023)))))
     (d_pow2 (d_of_int 52)) = Infinite False"
  by (simp add: tiny_def double_defs)

lemma exponent_tiny:
  "d_add (d_min (d_of_int (- 997)) (d_of_int 1023)) (d_of_int 1023) = d_of_int 26"
  by (simp add: double_defs)

lemma push_bits_fraction:
  "push_bits 52 (Infinite False) [] =
     [0, 0, 0, 0, 0, 0, 0, 0, 0, 0, 0, 0, 0, 0, 0, 0, 0, 0, 0, 0, 0, 0, 0, 0, 0, 0,
      0, 0, 0, 0, 0, 0, 0, 0, 0, 0, 0, 0, 0, 0, 0, 0, 0, 0, 0, 0, 0, 0, 0, 0, 0, 0]"
  by (simp add: push_bits_numeral d_of_int_2)

lemma push_bits_exponent:
  "push_bits 11 (d_of_int 26) bits = bits @ [0, 1, 0, 1, 1, 0, 0, 0, 0, 0, 0]"
  by (simp add: push_bits_numeral double_defs)

lemma writeDouble_tiny:
  assumes "d_floor (d_div (Math_log tiny) Math_LN2) = d_of_int (- 997)"
  shows "writeDouble Math_log (session False False []) tiny =
           Inr ((session False False [])
             \<lparr>transport := \<lparr>rbuf = [], wbuf = [1, 160, 0, 0, 0, 0, 0, 0]\<rparr>\<rparr>)"
proof -
  have abs: "d_abs tiny = tiny"
    by (simp add: tiny_def)
  have branch: "tiny \<noteq> NaN" "\<not> d_eq tiny (Infinite False)" "\<not> d_eq tiny (Infinite True)"
    "\<not> d_eq tiny (d_of_int 0)" "\<not> d_lt tiny (d_of_int 0)"
    by (simp_all add: tiny_def double_defs)
  show ?thesis
    unfolding writeDouble_def Let_def abs assms
    apply (simp add: js_defs branch tiny_normal exponent_tiny fraction_tiny
        del: d_mul.simps d_add.simps d_div.simps d_pow2.simps d_eq.simps d_lt.simps)
    apply (simp add: push_bits_fraction push_bits_exponent join_bits_def write_bit_string_Cons8
        write_bit_string_Nil parseInt2_def binval_def toDouble_def channel_defs)
    done
qed

lemma readDouble_written:
  "readDouble (session False False [1, 160, 0, 0, 0, 0, 0, 0]) =
     Inr (Finite False 4503599627370496 (- 1049), session False False [])"
proof -
  let ?str = "''0000000110100000000000000000000000000000000000000000000000000000''"
  have rd: "readMultiple (session False False [1, 160, 0, 0, 0, 0, 0, 0]) 8 =
              Inr ([1, 160, 0, 0, 0, 0, 0, 0], session False False [])"
    by (simp add: readMultiple_def channel_defs)
  have bits: "join_bits (rev (bytes_bits (length [1, 160, 0, 0, 0, 0, 0, 0 :: int])
                [1, 160, 0, 0, 0, 0, 0, 0] [])) = ?str"
    by (simp add: byte_bits_numeral js_defs join_bits_def)
  have s: "parseInt2 (substring ?str 0 1) = 0"
    by (simp add: bit_string_defs)
  have e: "parseInt2 (substring ?str 1 (1 + 11)) = 26"
    by (simp add: bit_string_defs)
  have f: "parseInt2 (substring_from ?str (1 + 11)) = 0"
    by (simp add: bit_string_defs)
  show ?thesis
    unfolding readDouble_def rd and_then_def sum.case prod.case Let_def bits s e f
    by (simp add: js_defs double_defs)
qed

lemma readDouble_tiny:
  "readDouble (session False False [1, 165, 110, 31, 194, 248, 243, 89]) =
     Inr (tiny, session False False [])"
proof -
  let ?str = "''0000000110100101011011100001111111000010111110001111001101011001''"
  have rd: "readMultiple (session False False [1, 165, 110, 31, 194, 248, 243, 89]) 8 =
              Inr ([1, 165, 110, 31, 194, 248, 243, 89], session False False [])"
    by (simp add: readMultiple_def channel_defs)
  have bits: "join_bits (rev (bytes_bits (length [1, 165, 110, 31, 194, 248, 243, 89 :: int])
                [1, 165, 110, 31, 194, 248, 243, 89] [])) = ?str"
    by (simp add: byte_bits_numeral js_defs join_bits_def)
  have s: "parseInt2 (substring ?str 0 1) = 0"
    by (simp add: bit_string_defs)
  have e: "parseInt2 (substring ?str 1 (1 + 11)) = 26"
    by (simp add: bit_string_defs)
  have f: "parseInt2 (substring_from ?str (1 + 11)) = 1528457577689945"
    by (simp add: bit_string_defs)
  show ?thesis
    unfolding readDouble_def rd and_then_def sum.case prod.case Let_def bits s e f
    by (simp add: js_defs double_defs tiny_def)
qed

section \<open>Claims\<close>

text \<open>
  C1. On a header whose i32 value is negative, \<open>readMessageBegin\<close> should fail with
  \<open>MissingVersionIdentifier\<close> exactly when the header masked with \<open>VERSION_MASK\<close> differs
  from \<open>VERSION_1\<close>. The code does not: the header \<open>0x80010001\<close> (version 1, kind 1)
  has the masked value \<open>VERSION_1\<close> and is rejected, and the header \<open>0x80020002\<close>
  has another masked value and is accepted, with kind 2, name and sequence number read.
\<close>

theorem readMessageBegin_version_check:
  "readI32 (session True True [0x80, 0x01, 0x00, 0x01]) = Inr (- 2147418111, session True True []) \<and>
   js_and (- 2147418111) VERSION_MASK = toInt32 VERSION_1 \<and>
   readMessageBegin utf8_codec
     (session True True [0x80, 0x01, 0x00, 0x01, 0, 0, 0, 4, 112, 105, 110, 103, 0, 0, 0, 42]) =
     Inl MissingVersionIdentifier \<and>
   readI32 (session True True [0x80, 0x02, 0x00, 0x02]) = Inr (- 2147352574, session True True []) \<and>
   js_and (- 2147352574) VERSION_MASK \<noteq> toInt32 VERSION_1 \<and>
   readMessageBegin utf8_codec
     (session True True [0x80, 0x02, 0x00, 0x02, 0, 0, 0, 4, 112, 105, 110, 103, 0, 0, 0, 42]) =
     Inr (\<lparr>fname = ''ping'', mtype = 2, rseqid = 42\<rparr>, session True True [])"
  by (simp add: reader_defs channel_defs pack_defs js_defs VERSION_1_def VERSION_MASK_def
      TYPE_MASK_def utf8_codec_def eval_nat_numeral char_of_def bit_numeral_simps)

text \<open>
  C2. \<open>writeMessageBegin("ping", CALL, 42)\<close> with \<open>strictWrite\<close> writes the sixteen bytes
  \<open>80 01 00 01, 00 00 00 04, 'p' 'i' 'n' 'g', 00 00 00 2a\<close>, as the claim says. Reading
  these bytes with \<open>strictRead\<close> should return the name "ping", the kind CALL and the
  sequence number 42; the code fails with \<open>MissingVersionIdentifier\<close> instead.
\<close>

theorem ping_call_strict:
  "writeMessageBegin utf8_codec (session True True []) ''ping'' MessageType_CALL 42 =
     Inr ((session True True [])
       \<lparr>transport := \<lparr>rbuf = [], wbuf = [0x80, 0x01, 0x00, 0x01, 0, 0, 0, 4, 112, 105, 110, 103, 0, 0, 0, 42]\<rparr>\<rparr>) \<and>
   readMessageBegin utf8_codec
     (session True True [0x80, 0x01, 0x00, 0x01, 0, 0, 0, 4, 112, 105, 110, 103, 0, 0, 0, 42]) =
     Inl MissingVersionIdentifier"
proof (intro conjI)
  show "writeMessageBegin utf8_codec (session True True []) ''ping'' MessageType_CALL 42 =
     Inr ((session True True [])
       \<lparr>transport := \<lparr>rbuf = [], wbuf = [0x80, 0x01, 0x00, 0x01, 0, 0, 0, 4, 112, 105, 110, 103, 0, 0, 0, 42]\<rparr>\<rparr>)"
    by (simp add: writer_defs channel_defs pack_defs js_defs VERSION_1_def MessageType_CALL_def
        utf8_codec_def)
next
  show "readMessageBegin utf8_codec
     (session True True [0x80, 0x01, 0x00, 0x01, 0, 0, 0, 4, 112, 105, 110, 103, 0, 0, 0, 42]) =
     Inl MissingVersionIdentifier"
    by (simp add: reader_defs channel_defs pack_defs js_defs VERSION_1_def VERSION_MASK_def
        eval_nat_numeral)
qed



text \<open>
  C4. \<open>skip(STRUCT)\<close> should consume a struct written by the frame writer and raise no
  error of its own. For a struct whose field 1 is a map with the two entries \<open>1 \<mapsto> 2\<close> and
  \<open>3 \<mapsto> 4\<close>, the writer emits fourteen bytes, and \<open>skip\<close> on them throws a \<open>TypeError\<close>
  before the second entry, for every amount of fuel that lets it come that far. The
  same struct with one entry is skipped, and the channel is left at the byte after it.
\<close>

theorem skip_map_struct_TypeError:
  "write_map_struct (session False False []) =
     Inr ((session False False [])
       \<lparr>transport := \<lparr>rbuf = [], wbuf = [13, 0, 1, 3, 3, 0, 0, 0, 2, 1, 2, 3, 4, 0]\<rparr>\<rparr>) \<and>
   skip (Suc (Suc (Suc (Suc (Suc n))))) utf8_codec
     (session False False [13, 0, 1, 3, 3, 0, 0, 0, 2, 1, 2, 3, 4, 0]) Type_STRUCT =
     Some (Inl TypeError) \<and>
   skip (Suc (Suc (Suc (Suc (Suc n))))) utf8_codec
     (session False False [13, 0, 1, 3, 3, 0, 0, 0, 1, 1, 2, 0, 99]) Type_STRUCT =
     Some (Inr (session False False [99]))"
proof (intro conjI)
  show "write_map_struct (session False False []) =
     Inr ((session False False [])
       \<lparr>transport := \<lparr>rbuf = [], wbuf = [13, 0, 1, 3, 3, 0, 0, 0, 2, 1, 2, 3, 4, 0]\<rparr>\<rparr>)"
    by (simp add: write_map_struct_def writer_defs channel_defs pack_defs js_defs type_defs)
next
  show "skip (Suc (Suc (Suc (Suc (Suc n))))) utf8_codec
     (session False False [13, 0, 1, 3, 3, 0, 0, 0, 2, 1, 2, 3, 4, 0]) Type_STRUCT =
     Some (Inl TypeError)"
    by (simp add: reader_defs channel_defs pack_defs js_defs type_defs skip_defs eval_nat_numeral)
next
  show "skip (Suc (Suc (Suc (Suc (Suc n))))) utf8_codec
     (session False False [13, 0, 1, 3, 3, 0, 0, 0, 1, 1, 2, 0, 99]) Type_STRUCT =
     Some (Inr (session False False [99]))"
    by (simp add: reader_defs channel_defs pack_defs js_defs type_defs skip_defs eval_nat_numeral)
qed

text \<open>
  C5. Each packer should succeed at the least and the greatest value of its range, the
  two's-complement range of its width (cut to the exact integers for 8 bytes), and fail
  one unit beyond them. The 16-bit and 32-bit packers fail at the least values
  themselves, \<open>- 32768\<close> and \<open>- 2147483648\<close>, which \<open>p16\<close> and \<open>p32\<close> encode and
  \<open>unpack16\<close> and \<open>unpack32\<close> decode. At the greatest values they succeed, and one unit
  above they fail; the 64-bit packer succeeds at \<open>- (2 ^ 53 - 1)\<close> and \<open>2 ^ 53 - 1\<close> and
  fails at \<open>- (2 ^ 53)\<close> and \<open>2 ^ 53\<close>. \<open>writeI16\<close> of binary.js accepts \<open>- 32768\<close>.
\<close>

theorem pack_bounds:
  "pack16 (- 32768) = Inl OutOfRange \<and> p16 (- 32768) = [128, 0] \<and>
   unpack16 [128, 0] = Inr (- 32768) \<and>
   pack32 (- 2147483648) = Inl OutOfRange \<and> p32 (- 2147483648) = [128, 0, 0, 0] \<and>
   unpack32 [128, 0, 0, 0] = Inr (- 2147483648) \<and>
   pack16 32767 = Inr [127, 255] \<and> pack16 32768 = Inl OutOfRange \<and>
   pack32 2147483647 = Inr [127, 255, 255, 255] \<and> pack32 2147483648 = Inl OutOfRange \<and>
   pack64 (- 9007199254740991) = Inr [255, 224, 0, 0, 0, 0, 0, 1] \<and>
   pack64 (- 9007199254740992) = Inl OutOfRange \<and>
   pack64 9007199254740991 = Inr [0, 31, 255, 255, 255, 255, 255, 255] \<and>
   pack64 9007199254740992 = Inl OutOfRange \<and>
   binary_writeI16 (session False False []) (- 32768) =
     Inr ((session False False []) \<lparr>transport := \<lparr>rbuf = [], wbuf = [128, 0]\<rparr>\<rparr>)"
proof -
  have small: "pack16 (- 32768) = Inl OutOfRange" "p16 (- 32768) = [128, 0]"
    "unpack16 [128, 0] = Inr (- 32768)"
    "pack32 (- 2147483648) = Inl OutOfRange" "p32 (- 2147483648) = [128, 0, 0, 0]"
    "unpack32 [128, 0, 0, 0] = Inr (- 2147483648)"
    "pack16 32767 = Inr [127, 255]" "pack16 32768 = Inl OutOfRange"
    "pack32 2147483647 = Inr [127, 255, 255, 255]" "pack32 2147483648 = Inl OutOfRange"
    "pack64 (- 9007199254740992) = Inl OutOfRange" "pack64 9007199254740992 = Inl OutOfRange"
    by (simp_all add: pack_defs js_defs)
  have lo: "pack64 (- 9007199254740991) = Inr [255, 224, 0, 0, 0, 0, 0, 1]"
    by (simp add: pack_defs hex_defs js_defs p64_loop_numeral)
  have hi: "pack64 9007199254740991 = Inr [0, 31, 255, 255, 255, 255, 255, 255]"
    by (simp add: pack_defs hex_defs js_defs p64_loop_numeral)
  have sibling: "binary_writeI16 (session False False []) (- 32768) =
     Inr ((session False False []) \<lparr>transport := \<lparr>rbuf = [], wbuf = [128, 0]\<rparr>\<rparr>)"
    by (simp add: binary_writeI16_def channel_defs js_defs)
  from small lo hi sibling show ?thesis by blast
qed

text \<open>
  C6. \<open>writeByte v\<close> should fail with \<open>OutOfRange\<close> for every \<open>v\<close> outside \<open>[-128, 127]\<close>.
  The code compares \<open>v\<close> with \<open>- 2 ^ 31\<close> and \<open>2 ^ 31\<close>: it hands 128, 1000 and \<open>- 129\<close>
  to the channel and fails only from \<open>2 ^ 31\<close> on.
\<close>

theorem writeByte_range:
  "writeByte p 128 = Inr (p\<lparr>transport := (transport p)\<lparr>wbuf := wbuf (transport p) @ [128]\<rparr>\<rparr>) \<and>
   writeByte p 1000 = Inr (p\<lparr>transport := (transport p)\<lparr>wbuf := wbuf (transport p) @ [1000]\<rparr>\<rparr>) \<and>
   writeByte p (- 129) = Inr (p\<lparr>transport := (transport p)\<lparr>wbuf := wbuf (transport p) @ [- 129]\<rparr>\<rparr>) \<and>
   writeByte p 2147483647 =
     Inr (p\<lparr>transport := (transport p)\<lparr>wbuf := wbuf (transport p) @ [2147483647]\<rparr>\<rparr>) \<and>
   writeByte p 2147483648 = Inl OutOfRange"
  by (simp add: writeByte_def channel_defs)

text \<open>
  C7. A message written by \<open>writeMessageBegin\<close> without \<open>strictWrite\<close> starts with the
  length of its name, which is not negative; \<open>readMessageBegin\<close> with \<open>strictRead\<close> set
  fails on these bytes with \<open>InvalidVersionIdentifier\<close>.
\<close>

theorem nonstrict_write_strict_read:
  assumes "\<not> strictWrite w" and "wbuf (transport w) = []"
    and "writeMessageBegin utf8 w name type seqid = Inr w'"
    and "strictRead r" and "rbuf (transport r) = wbuf (transport w')"
  shows "readMessageBegin utf8 r = Inl InvalidVersionIdentifier"
proof -
  let ?n = "int (length (encode utf8 name))"
  from assms(1,3) obtain q1 q2 where
    q1: "writeString utf8 w name = Inr q1" and q2: "writeByte q1 type = Inr q2"
    and w': "writeI32 q2 seqid = Inr w'"
    by (auto simp: writeMessageBegin_def and_then_def split: sum.splits)
  have n: "?n < 2 ^ 31" using q1 by (rule writeString_Inr(1))
  have "wbuf (transport w') = p32 ?n @ (encode utf8 name @ [type] @ p32 seqid)"
    using writeString_Inr(2) [OF q1] writeByte_Inr [OF q2] writeI32_Inr(2) [OF w'] assms(2) by simp
  with assms(5) have "rbuf (transport r) = p32 ?n @ (encode utf8 name @ [type] @ p32 seqid)" by simp
  then have "readI32 r = Inr (?n, r\<lparr>transport := (transport r)\<lparr>rbuf := encode utf8 name @ [type] @ p32 seqid\<rparr>\<rparr>)"
    using n by (intro readI32_p32) simp_all
  then show ?thesis using assms(4) by (simp add: readMessageBegin_def and_then_def)
qed

theorem nonstrict_write_strict_read_witness:
  "\<not> strictWrite (session False False []) \<and>
   wbuf (transport (session False False [])) = [] \<and>
   writeMessageBegin utf8_codec (session False False []) ''ping'' MessageType_CALL 42 =
     Inr ((session False False [])
       \<lparr>transport := \<lparr>rbuf = [], wbuf = [0, 0, 0, 4, 112, 105, 110, 103, 1, 0, 0, 0, 42]\<rparr>\<rparr>) \<and>
   strictRead (session True False [0, 0, 0, 4, 112, 105, 110, 103, 1, 0, 0, 0, 42]) \<and>
   readMessageBegin utf8_codec (session True False [0, 0, 0, 4, 112, 105, 110, 103, 1, 0, 0, 0, 42]) =
     Inl InvalidVersionIdentifier"
proof -
  let ?w = "session False False []"
  let ?bytes = "[0, 0, 0, 4, 112, 105, 110, 103, 1, 0, 0, 0, 42] :: int list"
  let ?w' = "?w\<lparr>transport := \<lparr>rbuf = [], wbuf = ?bytes\<rparr>\<rparr>"
  let ?r = "session True False ?bytes"
  have h1: "\<not> strictWrite ?w" by (simp add: channel_defs)
  have h2: "wbuf (transport ?w) = []" by (simp add: channel_defs)
  have h3: "writeMessageBegin utf8_codec ?w ''ping'' MessageType_CALL 42 = Inr ?w'"
    by (simp add: writer_defs channel_defs pack_defs js_defs MessageType_CALL_def utf8_codec_def)
  have h4: "strictRead ?r" by (simp add: channel_defs)
  have h5: "rbuf (transport ?r) = wbuf (transport ?w')" by (simp add: channel_defs)
  from nonstrict_write_strict_read [OF h1 h2 h3 h4 h5] h1 h2 h3 h4 show ?thesis by blast
qed

text \<open>
  C8. \<open>readDouble\<close> applied to the eight bytes that \<open>writeDouble(v)\<close> emits should give
  \<open>v\<close> back, for every double \<open>v\<close>. For \<open>v = 1e-300\<close> it does not, with every \<open>Math.log\<close>
  for which \<open>Math.floor(Math.log(v) / Math.LN2)\<close> is \<open>- 997\<close>, the exponent of \<open>v\<close> (the
  correctly rounded logarithm is one, \<open>floor_tiny\<close>, and so is every logarithm between
  \<open>- 691\<close> and \<open>- 690.5\<close>, \<open>floor_log_range\<close>): \<open>writeDouble\<close> emits the bytes
  \<open>01 a0 00 00 00 00 00 00\<close>, the exponent of \<open>v\<close> with a fraction of zero, and
  \<open>readDouble\<close> reads them as \<open>2 ^ - 997\<close>, which is not \<open>v\<close>. The bytes that
  \<open>readDouble\<close> reads as \<open>v\<close> are \<open>01 a5 6e 1f c2 f8 f3 59\<close>.
\<close>

theorem writeDouble_readDouble_tiny:
  assumes "d_floor (d_div (Math_log tiny) Math_LN2) = d_of_int (- 997)"
  shows "writeDouble Math_log (session False False []) tiny =
           Inr ((session False False [])
             \<lparr>transport := \<lparr>rbuf = [], wbuf = [1, 160, 0, 0, 0, 0, 0, 0]\<rparr>\<rparr>) \<and>
         readDouble (session False False [1, 160, 0, 0, 0, 0, 0, 0]) =
           Inr (d_pow2 (d_of_int (- 997)), session False False []) \<and>
         d_pow2 (d_of_int (- 997)) \<noteq> tiny \<and>
         \<not> d_eq (d_pow2 (d_of_int (- 997))) tiny \<and>
         readDouble (session False False [1, 165, 110, 31, 194, 248, 243, 89]) =
           Inr (tiny, session False False [])"
proof (intro conjI)
  have pow: "d_pow2 (d_of_int (- 997)) = Finite False 4503599627370496 (- 1049)"
    by (simp add: double_defs)
  show "writeDouble Math_log (session False False []) tiny =
           Inr ((session False False [])
             \<lparr>transport := \<lparr>rbuf = [], wbuf = [1, 160, 0, 0, 0, 0, 0, 0]\<rparr>\<rparr>)"
    using assms by (rule writeDouble_tiny)
  show "readDouble (session False False [1, 160, 0, 0, 0, 0, 0, 0]) =
           Inr (d_pow2 (d_of_int (- 997)), session False False [])"
    unfolding pow by (rule readDouble_written)
  show "d_pow2 (d_of_int (- 997)) \<noteq> tiny"
    unfolding pow by (simp add: tiny_def)
  show "\<not> d_eq (d_pow2 (d_of_int (- 997))) tiny"
    unfolding pow by (simp add: tiny_def signed_def)
  show "readDouble (session False False [1, 165, 110, 31, 194, 248, 243, 89]) =
           Inr (tiny, session False False [])"
    by (rule readDouble_tiny)
qed

theorem writeDouble_readDouble_tiny_witness:
  "d_floor (d_div ((\<lambda>dub. log_tiny) tiny) Math_LN2) = d_of_int (- 997) \<and>
   writeDouble (\<lambda>dub. log_tiny) (session False False []) tiny =
     Inr ((session False False [])
       \<lparr>transport := \<lparr>rbuf = [], wbuf = [1, 160, 0, 0, 0, 0, 0, 0]\<rparr>\<rparr>) \<and>
   readDouble (session False False [1, 160, 0, 0, 0, 0, 0, 0]) =
     Inr (d_pow2 (d_of_int (- 997)), session False False []) \<and>
   d_pow2 (d_of_int (- 997)) \<noteq> tiny"
  using writeDouble_readDouble_tiny [of "\<lambda>dub. log_tiny", OF floor_tiny] floor_tiny by blast

text \<open>
  C9. The twelve \<open>End\<close> operations do no channel I/O: \<open>writeMessageEnd\<close>, \<open>writeStructEnd\<close>,
  \<open>writeFieldEnd\<close>, \<open>writeMapEnd\<close>, \<open>writeListEnd\<close> and \<open>writeSetEnd\<close> write nothing, and
  \<open>readMessageEnd\<close>, \<open>readStructEnd\<close>, \<open>readFieldEnd\<close>, \<open>readMapEnd\<close>, \<open>readListEnd\<close> and
  \<open>readSetEnd\<close> consume nothing; each returns with the protocol object, and so the
  channel, as it was.
\<close>

theorem End_operations_no_io:
  "writeMessageEnd p = Inr p \<and> writeStructEnd p = Inr p \<and> writeFieldEnd p = Inr p \<and>
   writeMapEnd p = Inr p \<and> writeListEnd p = Inr p \<and> writeSetEnd p = Inr p \<and>
   discard (readMessageEnd p) = Inr p \<and> discard (readStructEnd p) = Inr p \<and>
   discard (readFieldEnd p) = Inr p \<and> discard (readMapEnd p) = Inr p \<and>
   discard (readListEnd p) = Inr p \<and> discard (readSetEnd p) = Inr p"
  by (simp add: writeMessageEnd_def writeStructEnd_def writeFieldEnd_def writeMapEnd_def
      writeListEnd_def writeSetEnd_def readMessageEnd_def readStructEnd_def readFieldEnd_def
      readMapEnd_def readListEnd_def readSetEnd_def discard_def and_then_def)

text \<open>
  C10. The two variants of \<open>readI16\<close> should return the same value on every pair of
  bytes. On the bytes \<open>ff ff\<close> the variant of binary.js returns 65535 and the variant of
  part_000 returns \<open>- 1\<close>; \<open>ff ff\<close> is what \<open>writeI16\<close> of binary.js itself writes for
  \<open>- 1\<close>.
\<close>

theorem readI16_variants_differ:
  "binary_readI16 (session False False [255, 255]) = Inr (65535, session False False []) \<and>
   readI16 (session False False [255, 255]) = Inr (- 1, session False False []) \<and>
   binary_writeI16 (session False False []) (- 1) =
     Inr ((session False False []) \<lparr>transport := \<lparr>rbuf = [], wbuf = [255, 255]\<rparr>\<rparr>)"
proof (intro conjI)
  show "binary_readI16 (session False False [255, 255]) = Inr (65535, session False False [])"
    by (simp add: binary_readI16_def reader_defs channel_defs js_defs)
next
  show "readI16 (session False False [255, 255]) = Inr (- 1, session False False [])"
    by (simp add: reader_defs channel_defs pack_defs js_defs eval_nat_numeral)
next
  show "binary_writeI16 (session False False []) (- 1) =
     Inr ((session False False []) \<lparr>transport := \<lparr>rbuf = [], wbuf = [255, 255]\<rparr>\<rparr>)"
    by (simp add: binary_writeI16_def channel_defs js_defs)
qed

end
